theory Spec2Isabelle
  imports Complex_Main "HOL-Library.AList" "HOL-Library.Char_ord" "HOL-Library.List_Lexorder"
begin

section \<open>Python values, exceptions and notebook cells\<close>

text \<open>
  The repository is two Jupyter notebooks: \<^verbatim>\<open>automl/00.configuration.ipynb\<close> and the
  remote-execution notebook for text data from blob storage. Their code cells are
  straight-line Python over the Azure ML SDK, pandas, scikit-learn and \<^verbatim>\<open>os\<close>.

  An exception is a value of \<open>error\<close>. The first group are Python's own, the second
  group are the failures the SDK reports (the notebooks never look inside them).
\<close>

datatype error =
    NameError string
  | KeyError string
  | ValueError string
  | TypeError string
  | FileExistsError "string list"
  | FileNotFoundError "string list"
  | NotADirectoryError "string list"
  | IsADirectoryError "string list"
  | UserErrorException string
  | ResourceExists
  | InsufficientPermission
  | NetworkFailure
  | ServiceError string

text \<open>
  Scalar Python values, as they occur in the settings dictionary and in the metrics a
  run reports, and lists for the metrics that are not scalars. The payload of a float is
  carried along and never computed with.
\<close>

datatype pyval =
    PyInt int
  | PyFloat real
  | PyStr string
  | PyBool bool
  | PyNone
  | PyList "pyval list"

text \<open>\<^verbatim>\<open>isinstance(v, float)\<close>: \<^verbatim>\<open>bool\<close> and \<^verbatim>\<open>int\<close> are not floats.\<close>

fun isinstance_float :: "pyval \<Rightarrow> bool" where
  "isinstance_float (PyFloat _) = True"
| "isinstance_float _ = False"


text \<open>
  A statement runs on a state and either returns a value or raises; the state it leaves
  is kept in both cases, as the Python kernel keeps every assignment made before an
  exception.
\<close>

type_synonym ('s, 'a) py = "'s \<Rightarrow> (error + 'a) \<times> 's"

definition returnE :: "'a \<Rightarrow> ('s, 'a) py" where
  "returnE x s = (Inr x, s)"

definition raise :: "error \<Rightarrow> ('s, 'a) py" where
  "raise e s = (Inl e, s)"

definition bindE :: "('s, 'a) py \<Rightarrow> ('a \<Rightarrow> ('s, 'b) py) \<Rightarrow> ('s, 'b) py" where
  "bindE m k s = (case m s of (Inl e, s') \<Rightarrow> (Inl e, s') | (Inr x, s') \<Rightarrow> k x s')"

definition assign :: "('s \<Rightarrow> 's) \<Rightarrow> ('s, unit) py" where
  "assign f s = (Inr (), f s)"

text \<open>Reading a global variable that no cell has assigned yet raises \<^verbatim>\<open>NameError\<close>.\<close>

definition getvar :: "('s \<Rightarrow> 'a option) \<Rightarrow> string \<Rightarrow> ('s, 'a) py" where
  "getvar field name s = (case field s of None \<Rightarrow> (Inl (NameError name), s) | Some v \<Rightarrow> (Inr v, s))"

text \<open>Running cells one after the other (Run All) stops at the first cell that raises.\<close>

fun run_cells :: "('s, unit) py list \<Rightarrow> ('s, unit) py" where
  "run_cells [] = returnE ()"
| "run_cells (c # cs) = bindE c (\<lambda>_. run_cells cs)"

text \<open>Re-running one cell \<open>n\<close> times, as a user does who executes it again and again.\<close>

fun rerun :: "nat \<Rightarrow> ('s, unit) py \<Rightarrow> ('s, unit) py" where
  "rerun 0 c = returnE ()"
| "rerun (Suc n) c = bindE c (\<lambda>_. rerun n c)"

section \<open>The world outside the kernel\<close>

text \<open>
  The local file system maps a path, as the list of its components below the working
  directory, to a directory or a file. The working directory itself is the empty list and
  always a directory. A JSON file holds an object with string members; the text of any
  other file is not modelled. An error of the operating system names the path by its
  components.
\<close>

datatype node = Dir | TextFile | JsonFile "(string \<times> string) list"

type_synonym filesystem = "string list \<rightharpoonup> node"

fun split_on :: "char \<Rightarrow> string \<Rightarrow> string list" where
  "split_on c [] = [[]]"
| "split_on c (x # xs) =
     (if x = c then [] # split_on c xs
      else (case split_on c xs of [] \<Rightarrow> [[x]] | w # ws \<Rightarrow> (x # w) # ws))"

text \<open>\<^verbatim>\<open>'./sample_projects'\<close> has the one component \<^verbatim>\<open>sample_projects\<close>.\<close>

definition components :: "string \<Rightarrow> string list" where
  "components p = filter (\<lambda>w. w \<noteq> [] \<and> w \<noteq> ''.'') (split_on CHR ''/'' p)"

definition stat :: "filesystem \<Rightarrow> string list \<Rightarrow> node option" where
  "stat fs cs = (if cs = [] then Some Dir else fs cs)"

definition isdir :: "filesystem \<Rightarrow> string \<Rightarrow> bool" where
  "isdir fs p = (stat fs (components p) = Some Dir)"

definition exists_path :: "filesystem \<Rightarrow> string \<Rightarrow> bool" where
  "exists_path fs p = (stat fs (components p) \<noteq> None)"

text \<open>
  \<^verbatim>\<open>mkdir(2)\<close>: the parent is resolved first, then an entry of any kind under the name
  makes the call fail with \<^verbatim>\<open>EEXIST\<close>, which Python raises as \<^verbatim>\<open>FileExistsError\<close>.
\<close>

definition mkdir_at :: "string list \<Rightarrow> filesystem \<Rightarrow> error + filesystem" where
  "mkdir_at cs fs =
     (case stat fs (butlast cs) of
        None \<Rightarrow> Inl (FileNotFoundError cs)
      | Some Dir \<Rightarrow>
          (if stat fs cs \<noteq> None then Inl (FileExistsError cs) else Inr (fs(cs \<mapsto> Dir)))
      | Some _ \<Rightarrow> Inl (NotADirectoryError cs))"

definition mkdir :: "string \<Rightarrow> filesystem \<Rightarrow> error + filesystem" where
  "mkdir p fs = mkdir_at (components p) fs"

text \<open>
  \<^verbatim>\<open>os.makedirs(name)\<close> with \<^verbatim>\<open>exist_ok=False\<close>: when the parent (\<^verbatim>\<open>head\<close>) does not
  exist it is made first, a \<^verbatim>\<open>FileExistsError\<close> of that recursive call is passed over, and
  then the leaf is made. The components come innermost first.
\<close>

fun makedirs_rev :: "string list \<Rightarrow> filesystem \<Rightarrow> error + filesystem" where
  "makedirs_rev [] fs = mkdir_at [] fs"
| "makedirs_rev (tail # rhead) fs =
     (if stat fs (rev rhead) = None
      then (case makedirs_rev rhead fs of
              Inl (FileExistsError _) \<Rightarrow> mkdir_at (rev (tail # rhead)) fs
            | Inl e \<Rightarrow> Inl e
            | Inr fs' \<Rightarrow> mkdir_at (rev (tail # rhead)) fs')
      else mkdir_at (rev (tail # rhead)) fs)"

definition makedirs :: "string \<Rightarrow> filesystem \<Rightarrow> error + filesystem" where
  "makedirs p fs = makedirs_rev (rev (components p)) fs"

text \<open>Opening a file for writing truncates it; a directory cannot be opened.\<close>

definition write_file :: "string \<Rightarrow> node \<Rightarrow> filesystem \<Rightarrow> error + filesystem" where
  "write_file p content fs =
     (let cs = components p in
      case stat fs (butlast cs) of
        None \<Rightarrow> Inl (FileNotFoundError cs)
      | Some Dir \<Rightarrow>
          (if stat fs cs = Some Dir then Inl (IsADirectoryError cs)
           else Inr (fs(cs \<mapsto> content)))
      | Some _ \<Rightarrow> Inl (NotADirectoryError cs))"

text \<open>
  The state every cell runs on: the local files, the state of the remote service (opaque,
  of type \<open>'r\<close>), and a history of the calls that left the kernel with the outcome of
  each (\<open>None\<close> when it returned, the exception when it raised). The history is a ghost
  variable: no cell reads it.
\<close>

record 'r world =
  files :: filesystem
  service :: 'r
  trace :: "(string \<times> error option) list"

definition outcome :: "error + 'a \<Rightarrow> error option" where
  "outcome res = (case res of Inl e \<Rightarrow> Some e | Inr _ \<Rightarrow> None)"

definition call :: "string \<Rightarrow> (('r, 'z) world_scheme, 'a) py \<Rightarrow> (('r, 'z) world_scheme, 'a) py" where
  "call name f s = (case f s of (res, s') \<Rightarrow> (res, s'\<lparr>trace := trace s' @ [(name, outcome res)]\<rparr>))"

definition on_files :: "(filesystem \<Rightarrow> error + filesystem) \<Rightarrow> (('r, 'z) world_scheme, unit) py" where
  "on_files f s = (case f (files s) of Inl e \<Rightarrow> (Inl e, s) | Inr fs \<Rightarrow> (Inr (), s\<lparr>files := fs\<rparr>))"

definition on_service :: "('r \<Rightarrow> (error + 'a) \<times> 'r) \<Rightarrow> (('r, 'z) world_scheme, 'a) py" where
  "on_service f s = (case f (service s) of (res, r) \<Rightarrow> (res, s\<lparr>service := r\<rparr>))"

definition os_path_isdir :: "string \<Rightarrow> (('r, 'z) world_scheme, bool) py" where
  "os_path_isdir p s = (Inr (isdir (files s) p), s)"

definition os_path_exists :: "string \<Rightarrow> (('r, 'z) world_scheme, bool) py" where
  "os_path_exists p s = (Inr (exists_path (files s) p), s)"

definition os_mkdir :: "string \<Rightarrow> (('r, 'z) world_scheme, unit) py" where
  "os_mkdir p = call ''os.mkdir'' (on_files (mkdir p))"

definition os_makedirs :: "string \<Rightarrow> (('r, 'z) world_scheme, unit) py" where
  "os_makedirs p = call ''os.makedirs'' (on_files (makedirs p))"

text \<open>Subscription of a dictionary: \<^verbatim>\<open>d[k]\<close> raises \<^verbatim>\<open>KeyError\<close> on a missing key.\<close>

definition getitem :: "(string \<times> 'v) list \<Rightarrow> string \<Rightarrow> ('s, 'v) py" where
  "getitem d k = (case map_of d k of None \<Rightarrow> raise (KeyError k) | Some v \<Rightarrow> returnE v)"

fun for_each :: "'a list \<Rightarrow> ('a \<Rightarrow> ('s, unit) py) \<Rightarrow> ('s, unit) py" where
  "for_each [] body = returnE ()"
| "for_each (x # xs) body = bindE (body x) (\<lambda>_. for_each xs body)"

definition called :: "string \<Rightarrow> ('r, 'z) world_scheme \<Rightarrow> ('r, 'z) world_scheme \<Rightarrow> nat" where
  "called name s s' = length (filter (\<lambda>c. fst c = name) (drop (length (trace s)) (trace s')))"

section \<open>The Azure ML SDK as the notebooks see it\<close>

text \<open>
  A \<^verbatim>\<open>Workspace\<close> object carries the identity it was made for and the region the service
  reports (the attributes \<^verbatim>\<open>name\<close>, \<^verbatim>\<open>subscription_id\<close>, \<^verbatim>\<open>resource_group\<close> and
  \<^verbatim>\<open>location\<close> that the experiment notebook reads). The other handles are opaque remote
  identifiers.
\<close>

record Workspace =
  ws_name :: string
  ws_subscription_id :: string
  ws_resource_group :: string
  ws_location :: string

datatype Experiment = Experiment Workspace string

datatype RemoteCompute = RemoteCompute string

datatype AutoMLRun = AutoMLRun string

datatype Model = Model string

record AutoMLConfig =
  task :: string
  path :: string
  compute_target :: RemoteCompute
  data_script :: string
  settings :: "(string \<times> pyval) list"

text \<open>
  The code of the SDK is not part of the repository. Every call that reaches the service
  is a parameter of the model: a function on the service's state \<open>'r\<close> that returns or
  raises whatever the service decides.
\<close>

record 'r azureml =
  VERSION :: string
  Workspace_create :: "string \<Rightarrow> string \<Rightarrow> string \<Rightarrow> string \<Rightarrow> 'r \<Rightarrow> (error + unit) \<times> 'r"
  Workspace_get :: "string \<Rightarrow> string \<Rightarrow> string \<Rightarrow> 'r \<Rightarrow> (error + string) \<times> 'r"
  Workspace_get_details :: "Workspace \<Rightarrow> 'r \<Rightarrow> (error + (string \<times> string) list) \<times> 'r"
  Experiment_init :: "Workspace \<Rightarrow> string \<Rightarrow> 'r \<Rightarrow> (error + unit) \<times> 'r"
  set_diagnostics_collection :: "bool \<Rightarrow> 'r \<Rightarrow> (error + unit) \<times> 'r"
  RemoteCompute_attach ::
    "Workspace \<Rightarrow> string \<Rightarrow> string \<Rightarrow> string \<Rightarrow> string \<Rightarrow> int \<Rightarrow> 'r \<Rightarrow> (error + RemoteCompute) \<times> 'r"
  Experiment_submit :: "Experiment \<Rightarrow> AutoMLConfig \<Rightarrow> 'r \<Rightarrow> (error + AutoMLRun) \<times> 'r"
  RunDetails_show :: "AutoMLRun \<Rightarrow> 'r \<Rightarrow> (error + unit) \<times> 'r"
  Run_get_children :: "AutoMLRun \<Rightarrow> 'r \<Rightarrow> (error + AutoMLRun list) \<times> 'r"
  Run_get_properties :: "AutoMLRun \<Rightarrow> 'r \<Rightarrow> (error + (string \<times> string) list) \<times> 'r"
  Run_get_metrics :: "AutoMLRun \<Rightarrow> 'r \<Rightarrow> (error + (string \<times> pyval) list) \<times> 'r"
  Run_cancel :: "AutoMLRun \<Rightarrow> 'r \<Rightarrow> (error + unit) \<times> 'r"
  Run_get_output :: "AutoMLRun \<Rightarrow> int option \<Rightarrow> 'r \<Rightarrow> (error + AutoMLRun \<times> Model) \<times> 'r"
  Run_register_model :: "AutoMLRun \<Rightarrow> string \<Rightarrow> pyval \<Rightarrow> 'r \<Rightarrow> (error + string) \<times> 'r"

text \<open>
  \<^verbatim>\<open>Workspace.create(name, subscription_id, resource_group, location)\<close> and the constructor
  \<^verbatim>\<open>Workspace(workspace_name, subscription_id, resource_group)\<close>: one remote call each; the
  object returned is the handle for the identity that was asked for.
\<close>

definition Workspace_create_call ::
  "'r azureml \<Rightarrow> string \<Rightarrow> string \<Rightarrow> string \<Rightarrow> string \<Rightarrow> (('r, 'z) world_scheme, Workspace) py" where
  "Workspace_create_call sdk n sub rg loc =
     bindE (call ''Workspace.create'' (on_service (Workspace_create sdk n sub rg loc)))
       (\<lambda>_. returnE \<lparr>ws_name = n, ws_subscription_id = sub, ws_resource_group = rg, ws_location = loc\<rparr>)"

definition Workspace_init ::
  "'r azureml \<Rightarrow> string \<Rightarrow> string \<Rightarrow> string \<Rightarrow> (('r, 'z) world_scheme, Workspace) py" where
  "Workspace_init sdk n sub rg =
     bindE (call ''Workspace'' (on_service (Workspace_get sdk n sub rg)))
       (\<lambda>loc. returnE \<lparr>ws_name = n, ws_subscription_id = sub, ws_resource_group = rg, ws_location = loc\<rparr>)"

definition get_details ::
  "'r azureml \<Rightarrow> Workspace \<Rightarrow> (('r, 'z) world_scheme, (string \<times> string) list) py" where
  "get_details sdk w = call ''Workspace.get_details'' (on_service (Workspace_get_details sdk w))"

subsection \<open>The configuration file\<close>

text \<open>
  Modelled from the spec: \<^verbatim>\<open>Workspace.write_config\<close> and \<^verbatim>\<open>Workspace.from_config\<close> are
  methods of the Azure ML SDK, whose code is not in the repository. The spec has the
  workspace descriptor written to a local configuration file, overwritten wholesale on
  reconfiguration and read back by later sessions; the notebook names the file
  (\<^verbatim>\<open>./aml_config/config.json\<close>, the default location) and, in the comment on the call, the
  values persisted: the subscription id, the resource group name and the workspace name.
\<close>

definition descriptor :: "Workspace \<Rightarrow> (string \<times> string) list" where
  "descriptor w =
     [(''subscription_id'', ws_subscription_id w),
      (''resource_group'', ws_resource_group w),
      (''workspace_name'', ws_name w)]"

definition config_dir :: string where
  "config_dir = ''./aml_config''"

definition config_file :: string where
  "config_file = ''./aml_config/config.json''"

definition save_descriptor :: "Workspace \<Rightarrow> filesystem \<Rightarrow> error + filesystem" where
  "save_descriptor w fs =
     (if exists_path fs config_dir then write_file config_file (JsonFile (descriptor w)) fs
      else (case mkdir config_dir fs of
              Inl e \<Rightarrow> Inl e
            | Inr fs' \<Rightarrow> write_file config_file (JsonFile (descriptor w)) fs'))"

definition write_config :: "Workspace \<Rightarrow> (('r, 'z) world_scheme, unit) py" where
  "write_config w = call ''Workspace.write_config'' (on_files (save_descriptor w))"

definition read_json :: "string \<Rightarrow> (('r, 'z) world_scheme, (string \<times> string) list) py" where
  "read_json p s =
     (case stat (files s) (components p) of
        Some (JsonFile members) \<Rightarrow> (Inr members, s)
      | _ \<Rightarrow> (Inl (UserErrorException p), s))"

definition from_config :: "'r azureml \<Rightarrow> (('r, 'z) world_scheme, Workspace) py" where
  "from_config sdk =
     bindE (read_json config_file) (\<lambda>d.
     bindE (getitem d ''workspace_name'') (\<lambda>n.
     bindE (getitem d ''subscription_id'') (\<lambda>sub.
     bindE (getitem d ''resource_group'') (\<lambda>rg.
     Workspace_init sdk n sub rg))))"

section \<open>The configuration notebook\<close>

text \<open>
  The global variables of a kernel. Both notebooks assign \<^verbatim>\<open>ws\<close>; the other variables
  belong to one notebook each. The cells that run a shell command (\<^verbatim>\<open>!az login\<close> and
  the like, which IPython never turns into an exception) or only print the SDK version
  assign no variable and are left out, as is what a cell prints or displays.
\<close>

record 'r kernel = "'r world" +
  ws :: "Workspace option"

record 'r configuration = "'r kernel" +
  subscription_id :: "string option"
  resource_group :: "string option"
  workspace_name :: "string option"
  workspace_region :: "string option"
  my_workspace :: "Workspace option"
  sample_projects_folder :: "string option"

definition workspace_parameters :: "(('r, 'z) configuration_scheme, unit) py" where
  "workspace_parameters =
     assign (\<lambda>s. s\<lparr>subscription_id := Some ''<subscription_id>'',
                   resource_group := Some ''myrg'',
                   workspace_name := Some ''myws'',
                   workspace_region := Some ''eastus2''\<rparr>)"

definition creating_a_workspace :: "'r azureml \<Rightarrow> (('r, 'z) configuration_scheme, unit) py" where
  "creating_a_workspace sdk =
     bindE (getvar workspace_name ''workspace_name'') (\<lambda>n.
     bindE (getvar subscription_id ''subscription_id'') (\<lambda>sub.
     bindE (getvar resource_group ''resource_group'') (\<lambda>rg.
     bindE (getvar workspace_region ''workspace_region'') (\<lambda>loc.
     bindE (Workspace_create_call sdk n sub rg loc) (\<lambda>w.
     bindE (assign (\<lambda>s. s\<lparr>ws := Some w\<rparr>)) (\<lambda>_.
     bindE (get_details sdk w) (\<lambda>_. returnE ())))))))"

definition configuring_your_local_environment ::
  "'r azureml \<Rightarrow> (('r, 'z) configuration_scheme, unit) py" where
  "configuring_your_local_environment sdk =
     bindE (getvar workspace_name ''workspace_name'') (\<lambda>n.
     bindE (getvar subscription_id ''subscription_id'') (\<lambda>sub.
     bindE (getvar resource_group ''resource_group'') (\<lambda>rg.
     bindE (Workspace_init sdk n sub rg) (\<lambda>w.
     bindE (assign (\<lambda>s. s\<lparr>ws := Some w\<rparr>)) (\<lambda>_.
     write_config w)))))"

definition load_the_workspace :: "'r azureml \<Rightarrow> (('r, 'z) configuration_scheme, unit) py" where
  "load_the_workspace sdk =
     bindE (from_config sdk) (\<lambda>w.
     bindE (assign (\<lambda>s. s\<lparr>my_workspace := Some w\<rparr>)) (\<lambda>_.
     bindE (get_details sdk w) (\<lambda>_. returnE ())))"

definition create_sample_projects_folder :: "(('r, 'z) configuration_scheme, unit) py" where
  "create_sample_projects_folder =
     bindE (assign (\<lambda>s. s\<lparr>sample_projects_folder := Some ''./sample_projects''\<rparr>)) (\<lambda>_.
     bindE (getvar sample_projects_folder ''sample_projects_folder'') (\<lambda>p.
     bindE (os_path_isdir p) (\<lambda>d.
     if \<not> d then os_mkdir p else returnE ())))"

definition configuration_notebook :: "'r azureml \<Rightarrow> (('r, 'z) configuration_scheme, unit) py list" where
  "configuration_notebook sdk =
     [workspace_parameters,
      creating_a_workspace sdk,
      configuring_your_local_environment sdk,
      load_the_workspace sdk,
      create_sample_projects_folder]"

section \<open>The remote-execution notebook\<close>

text \<open>
  \<^verbatim>\<open>int(s)\<close> on a string, in Python 3.6, the kernel of the notebooks. A string is the list
  of its code points, which are below 256 here. Blanks around the number are dropped, one
  sign may come first, and the digits may be grouped by single underscores. The blanks of
  \<^verbatim>\<open>int\<close> are the tab, the line feed, the vertical tab, the form feed, the carriage return
  and the space, and beyond ASCII the next-line character (0x85) and the no-break space
  (0xA0); the separators 0x1C to 0x1F are blanks for \<^verbatim>\<open>str.isspace\<close> but not for \<^verbatim>\<open>int\<close>.
\<close>

definition is_space :: "char \<Rightarrow> bool" where
  "is_space c = (let n = (of_char c :: nat) in n = 32 \<or> (9 \<le> n \<and> n \<le> 13) \<or> n = 133 \<or> n = 160)"

definition strip :: "string \<Rightarrow> string" where
  "strip s = rev (dropWhile is_space (rev (dropWhile is_space s)))"

definition digit :: "char \<Rightarrow> nat option" where
  "digit c = (let n = (of_char c :: nat) in if 48 \<le> n \<and> n \<le> 57 then Some (n - 48) else None)"

fun digits :: "string \<Rightarrow> nat \<Rightarrow> bool \<Rightarrow> nat option" where
  "digits [] acc after_digit = (if after_digit then Some acc else None)"
| "digits (c # cs) acc after_digit =
     (if c = CHR ''_'' then (if after_digit then digits cs acc False else None)
      else (case digit c of None \<Rightarrow> None | Some d \<Rightarrow> digits cs (10 * acc + d) True))"

definition int_of_str :: "string \<Rightarrow> int option" where
  "int_of_str s =
     (case strip s of
        [] \<Rightarrow> None
      | c # cs \<Rightarrow>
          if c = CHR ''-'' then map_option (\<lambda>n. - int n) (digits cs 0 False)
          else if c = CHR ''+'' then map_option int (digits cs 0 False)
          else map_option int (digits (c # cs) 0 False))"

definition py_int :: "string \<Rightarrow> ('s, int) py" where
  "py_int s = (case int_of_str s of None \<Rightarrow> raise (ValueError s) | Some i \<Rightarrow> returnE i)"






text \<open>
  \<^verbatim>\<open>pd.DataFrame(metricslist).sort_index(1)\<close> on a dictionary of dictionaries. The frame has
  one column per key of the outer dictionary and one row per key of any of the inner
  dictionaries; the entry of a column at a row is the value its dictionary has under the
  label of the row, and \<^verbatim>\<open>NaN\<close> where the dictionary has no such key. \<^verbatim>\<open>sort_index(1)\<close>
  sorts the columns by their labels. The order of the rows depends on the version of pandas
  and is left open: the row labels are a set.
\<close>

datatype entry_value = NaN | Value pyval

record table =
  columns :: "int list"
  index :: "string set"
  entry :: "int \<Rightarrow> string \<Rightarrow> entry_value option"

definition DataFrame_sort_index :: "(int \<times> (string \<times> pyval) list) list \<Rightarrow> table" where
  "DataFrame_sort_index d =
     \<lparr>columns = sort (map fst d),
      index = (\<Union>(i, ms) \<in> set d. fst ` set ms),
      entry = (\<lambda>i k.
        case map_of d i of
          None \<Rightarrow> None
        | Some ms \<Rightarrow>
            if k \<in> (\<Union>(i, ms) \<in> set d. fst ` set ms)
            then Some (case map_of ms k of None \<Rightarrow> NaN | Some v \<Rightarrow> Value v)
            else None)\<rparr>"

record 'r remote_execution = "'r kernel" +
  experiment_name :: "string option"
  project_folder :: "string option"
  "experiment" :: "Experiment option"
  "output" :: "(string \<times> string) list option"
  dsvm_name :: "string option"
  dsvm_ip_addr :: "string option"
  dsvm_username :: "string option"
  dsvm_password :: "string option"
  dsvm_compute :: "RemoteCompute option"
  automl_settings :: "(string \<times> pyval) list option"
  automl_config :: "AutoMLConfig option"
  remote_run :: "AutoMLRun option"
  children :: "AutoMLRun list option"
  metricslist :: "(int \<times> (string \<times> pyval) list) list option"
  run :: "AutoMLRun option"
  properties :: "(string \<times> string) list option"
  metrics :: "(string \<times> pyval) list option"
  rundata :: "table option"
  best_run :: "AutoMLRun option"
  fitted_model :: "Model option"
  iteration :: "int option"
  zero_run :: "AutoMLRun option"
  zero_model :: "Model option"
  description :: "string option"
  tags :: "pyval option"

definition Experiment_name :: "Experiment \<Rightarrow> string" where
  "Experiment_name e = (case e of Experiment w n \<Rightarrow> n)"

definition create_experiment :: "'r azureml \<Rightarrow> (('r, 'z) remote_execution_scheme, unit) py" where
  "create_experiment sdk =
     bindE (from_config sdk) (\<lambda>w.
     bindE (assign (\<lambda>s. s\<lparr>ws := Some w,
                            experiment_name := Some ''automl-remote-dsvm-blobstore'',
                            project_folder := Some ''./sample_projects/automl-remote-dsvm-blobstore''\<rparr>)) (\<lambda>_.
     bindE (getvar ws ''ws'') (\<lambda>w.
     bindE (getvar experiment_name ''experiment_name'') (\<lambda>n.
     bindE (call ''Experiment'' (on_service (Experiment_init sdk w n))) (\<lambda>_.
     bindE (assign (\<lambda>s. s\<lparr>experiment := Some (Experiment w n)\<rparr>)) (\<lambda>_.
     bindE (getvar ws ''ws'') (\<lambda>w.
     bindE (getvar project_folder ''project_folder'') (\<lambda>pf.
     bindE (getvar experiment ''experiment'') (\<lambda>e.
     assign (\<lambda>s. s\<lparr>output := Some
       [(''SDK version'', VERSION sdk),
        (''Subscription ID'', ws_subscription_id w),
        (''Workspace'', ws_name w),
        (''Resource Group'', ws_resource_group w),
        (''Location'', ws_location w),
        (''Project Directory'', pf),
        (''Experiment Name'', Experiment_name e)]\<rparr>))))))))))"

definition diagnostics :: "'r azureml \<Rightarrow> (('r, 'z) remote_execution_scheme, unit) py" where
  "diagnostics sdk = call ''set_diagnostics_collection'' (on_service (set_diagnostics_collection sdk True))"

definition attach_a_remote_linux_dsvm :: "'r azureml \<Rightarrow> (('r, 'z) remote_execution_scheme, unit) py" where
  "attach_a_remote_linux_dsvm sdk =
     bindE (assign (\<lambda>s. s\<lparr>dsvm_name := Some ''mydsvm1'',
                            dsvm_ip_addr := Some ''<<ip_addr>>'',
                            dsvm_username := Some ''<<username>>'',
                            dsvm_password := Some ''<<password>>''\<rparr>)) (\<lambda>_.
     bindE (getvar ws ''ws'') (\<lambda>w.
     bindE (getvar dsvm_name ''dsvm_name'') (\<lambda>n.
     bindE (getvar dsvm_ip_addr ''dsvm_ip_addr'') (\<lambda>a.
     bindE (getvar dsvm_username ''dsvm_username'') (\<lambda>u.
     bindE (getvar dsvm_password ''dsvm_password'') (\<lambda>pw.
     bindE (call ''RemoteCompute.attach'' (on_service (RemoteCompute_attach sdk w n a u pw 22))) (\<lambda>c.
     assign (\<lambda>s. s\<lparr>dsvm_compute := Some c\<rparr>))))))))"

definition create_project_folder :: "(('r, 'z) remote_execution_scheme, unit) py" where
  "create_project_folder =
     bindE (getvar project_folder ''project_folder'') (\<lambda>pf.
     bindE (os_path_exists pf) (\<lambda>e.
     if \<not> e then bindE (getvar project_folder ''project_folder'') os_makedirs else returnE ()))"

text \<open>
  \<^verbatim>\<open>%%writefile $project_folder/get_data.py\<close> stores the text of the cell, the definition of
  \<^verbatim>\<open>get_data\<close>, in the project folder.
\<close>

definition create_get_data_file :: "(('r, 'z) remote_execution_scheme, unit) py" where
  "create_get_data_file =
     bindE (getvar project_folder ''project_folder'') (\<lambda>pf.
     call ''%%writefile'' (on_files (write_file (pf @ ''/get_data.py'') TextFile)))"

text \<open>The settings dictionary, as the notebook writes it.\<close>

definition automl_settings_dict :: "(string \<times> pyval) list" where
  "automl_settings_dict =
     [(''max_time_sec'', PyInt 3600),
      (''iterations'', PyInt 10),
      (''n_cross_validations'', PyInt 5),
      (''primary_metric'', PyStr ''AUC_weighted''),
      (''preprocess'', PyBool True),
      (''max_cores_per_iteration'', PyInt 2)]"

text \<open>
  Modelled from the spec: \<^verbatim>\<open>AutoMLConfig\<close> is a class of the Azure ML SDK, whose code is not
  in the repository. The spec has the submission take a settings mapping plus a reference
  to the data-loading script, and the configuration object is modelled as just that: the
  arguments the notebook writes in
  \<^verbatim>\<open>AutoMLConfig(task=..., path=..., compute_target=..., data_script=..., **automl_settings)\<close>,
  with \<open>settings\<close> the keyword arguments that come from the dictionary. What the SDK adds of
  its own, such as the default of an option the notebook leaves out, is not in the object.
  The one failure is Python's: a key of the dictionary that repeats a keyword written in
  the call is a \<^verbatim>\<open>TypeError\<close>.
\<close>

definition AutoMLConfig_init ::
  "string \<Rightarrow> string \<Rightarrow> RemoteCompute \<Rightarrow> string \<Rightarrow> (string \<times> pyval) list \<Rightarrow> ('s, AutoMLConfig) py" where
  "AutoMLConfig_init t p c d kwargs =
     (case filter (\<lambda>k. k \<in> set [''task'', ''path'', ''compute_target'', ''data_script'']) (map fst kwargs) of
        [] \<Rightarrow> returnE \<lparr>task = t, path = p, compute_target = c, data_script = d, settings = kwargs\<rparr>
      | k # _ \<Rightarrow> raise (TypeError k))"

definition instantiate_automl :: "(('r, 'z) remote_execution_scheme, unit) py" where
  "instantiate_automl =
     bindE (assign (\<lambda>s. s\<lparr>automl_settings := Some automl_settings_dict\<rparr>)) (\<lambda>_.
     bindE (getvar project_folder ''project_folder'') (\<lambda>pf.
     bindE (getvar dsvm_compute ''dsvm_compute'') (\<lambda>c.
     bindE (getvar project_folder ''project_folder'') (\<lambda>pf'.
     bindE (getvar automl_settings ''automl_settings'') (\<lambda>kwargs.
     bindE (AutoMLConfig_init ''classification'' pf c (pf' @ ''/get_data.py'') kwargs) (\<lambda>cfg.
     assign (\<lambda>s. s\<lparr>automl_config := Some cfg\<rparr>)))))))"

definition training_the_model :: "'r azureml \<Rightarrow> (('r, 'z) remote_execution_scheme, unit) py" where
  "training_the_model sdk =
     bindE (getvar experiment ''experiment'') (\<lambda>e.
     bindE (getvar automl_config ''automl_config'') (\<lambda>cfg.
     bindE (call ''Experiment.submit'' (on_service (Experiment_submit sdk e cfg))) (\<lambda>r.
     assign (\<lambda>s. s\<lparr>remote_run := Some r\<rparr>))))"

definition widget_for_monitoring_runs :: "'r azureml \<Rightarrow> (('r, 'z) remote_execution_scheme, unit) py" where
  "widget_for_monitoring_runs sdk =
     bindE (getvar remote_run ''remote_run'') (\<lambda>r.
     call ''RunDetails.show'' (on_service (RunDetails_show sdk r)))"

text \<open>
  The body of the loop over the child runs. In the assignment
  \<^verbatim>\<open>metricslist[int(properties['iteration'])] = metrics\<close> Python evaluates the right-hand
  side, then the dictionary, then the key. Storing under a key that is already there
  replaces its value.
\<close>

definition record_metrics :: "'r azureml \<Rightarrow> AutoMLRun \<Rightarrow> (('r, 'z) remote_execution_scheme, unit) py" where
  "record_metrics sdk r =
     bindE (assign (\<lambda>s. s\<lparr>run := Some r\<rparr>)) (\<lambda>_.
     bindE (getvar run ''run'') (\<lambda>r.
     bindE (call ''Run.get_properties'' (on_service (Run_get_properties sdk r))) (\<lambda>ps.
     bindE (assign (\<lambda>s. s\<lparr>properties := Some ps\<rparr>)) (\<lambda>_.
     bindE (getvar run ''run'') (\<lambda>r.
     bindE (call ''Run.get_metrics'' (on_service (Run_get_metrics sdk r))) (\<lambda>items.
     bindE (assign (\<lambda>s. s\<lparr>metrics := Some (filter (\<lambda>(k, v). isinstance_float v) items)\<rparr>)) (\<lambda>_.
     bindE (getvar metrics ''metrics'') (\<lambda>ms.
     bindE (getvar metricslist ''metricslist'') (\<lambda>ml.
     bindE (getvar properties ''properties'') (\<lambda>ps.
     bindE (getitem ps ''iteration'') (\<lambda>it.
     bindE (py_int it) (\<lambda>i.
     assign (\<lambda>s. s\<lparr>metricslist := Some (AList.update i ms ml)\<rparr>)))))))))))))"

definition retrieve_all_child_runs :: "'r azureml \<Rightarrow> (('r, 'z) remote_execution_scheme, unit) py" where
  "retrieve_all_child_runs sdk =
     bindE (getvar remote_run ''remote_run'') (\<lambda>r.
     bindE (call ''Run.get_children'' (on_service (Run_get_children sdk r))) (\<lambda>cs.
     bindE (assign (\<lambda>s. s\<lparr>children := Some cs, metricslist := Some []\<rparr>)) (\<lambda>_.
     bindE (getvar children ''children'') (\<lambda>cs.
     bindE (for_each cs (record_metrics sdk)) (\<lambda>_.
     bindE (getvar metricslist ''metricslist'') (\<lambda>ml.
     assign (\<lambda>s. s\<lparr>rundata := Some (DataFrame_sort_index ml)\<rparr>)))))))"

definition canceling_runs :: "'r azureml \<Rightarrow> (('r, 'z) remote_execution_scheme, unit) py" where
  "canceling_runs sdk =
     bindE (getvar remote_run ''remote_run'') (\<lambda>r.
     call ''Run.cancel'' (on_service (Run_cancel sdk r)))"

definition retrieve_the_best_model :: "'r azureml \<Rightarrow> (('r, 'z) remote_execution_scheme, unit) py" where
  "retrieve_the_best_model sdk =
     bindE (getvar remote_run ''remote_run'') (\<lambda>r.
     bindE (call ''Run.get_output'' (on_service (Run_get_output sdk r None))) (\<lambda>(b, m).
     assign (\<lambda>s. s\<lparr>best_run := Some b, fitted_model := Some m\<rparr>)))"

definition model_from_a_specific_iteration :: "'r azureml \<Rightarrow> (('r, 'z) remote_execution_scheme, unit) py" where
  "model_from_a_specific_iteration sdk =
     bindE (assign (\<lambda>s. s\<lparr>iteration := Some 0\<rparr>)) (\<lambda>_.
     bindE (getvar remote_run ''remote_run'') (\<lambda>r.
     bindE (getvar iteration ''iteration'') (\<lambda>i.
     bindE (call ''Run.get_output'' (on_service (Run_get_output sdk r (Some i)))) (\<lambda>(b, m).
     assign (\<lambda>s. s\<lparr>zero_run := Some b, zero_model := Some m\<rparr>)))))"

definition register_fitted_model :: "'r azureml \<Rightarrow> (('r, 'z) remote_execution_scheme, unit) py" where
  "register_fitted_model sdk =
     bindE (assign (\<lambda>s. s\<lparr>description := Some ''AutoML Model'', tags := Some PyNone\<rparr>)) (\<lambda>_.
     bindE (getvar remote_run ''remote_run'') (\<lambda>r.
     bindE (getvar description ''description'') (\<lambda>d.
     bindE (getvar tags ''tags'') (\<lambda>t.
     bindE (call ''Run.register_model'' (on_service (Run_register_model sdk r d t))) (\<lambda>_.
     bindE (getvar remote_run ''remote_run'') (\<lambda>_. returnE ()))))))"

text \<open>
  The cells up to the submission and the cells after it, in the order of the notebook.
  Two cells are not among them: the one that runs \<^verbatim>\<open>get_data\<close> locally to view the
  data, and the last one, which tests the fitted model on the local machine. Neither calls
  the service, and neither mentions the settings or the configuration.
\<close>

definition before_submission :: "'r azureml \<Rightarrow> (('r, 'z) remote_execution_scheme, unit) py list" where
  "before_submission sdk =
     [create_experiment sdk,
      diagnostics sdk,
      attach_a_remote_linux_dsvm sdk,
      create_project_folder,
      create_get_data_file,
      instantiate_automl]"

definition after_submission :: "'r azureml \<Rightarrow> (('r, 'z) remote_execution_scheme, unit) py list" where
  "after_submission sdk =
     [widget_for_monitoring_runs sdk,
      retrieve_all_child_runs sdk,
      canceling_runs sdk,
      retrieve_the_best_model sdk,
      model_from_a_specific_iteration sdk,
      register_fitted_model sdk]"

definition remote_execution_notebook :: "'r azureml \<Rightarrow> (('r, 'z) remote_execution_scheme, unit) py list" where
  "remote_execution_notebook sdk = before_submission sdk @ [training_the_model sdk] @ after_submission sdk"

section \<open>The data script\<close>

text \<open>
  A data frame holds its columns in order, each under its name with its values; pandas
  gives the columns it reads distinct names. The cells are of any type with a linear
  order, the order \<^verbatim>\<open>np.unique\<close> sorts the labels by.
\<close>

type_synonym 'a frame = "(string \<times> 'a list) list"

datatype 'a data = DataFrame "'a frame" | ndarray "nat list"

text \<open>\<^verbatim>\<open>df["Label"].values\<close> and \<^verbatim>\<open>df.drop(["Label"], axis=1)\<close>.\<close>

definition column_values :: "'a frame \<Rightarrow> string \<Rightarrow> error + 'a list" where
  "column_values df c = (case map_of df c of None \<Rightarrow> Inl (KeyError c) | Some vs \<Rightarrow> Inr vs)"

definition drop_columns :: "'a frame \<Rightarrow> string list \<Rightarrow> error + 'a frame" where
  "drop_columns df labels =
     (case filter (\<lambda>l. l \<notin> set (map fst df)) labels of
        [] \<Rightarrow> Inr (filter (\<lambda>(c, vs). c \<notin> set labels) df)
      | l # _ \<Rightarrow> Inl (KeyError l))"

text \<open>
  scikit-learn's \<^verbatim>\<open>LabelEncoder\<close>: \<^verbatim>\<open>fit\<close> keeps the sorted distinct labels
  (\<^verbatim>\<open>np.unique\<close>) as \<^verbatim>\<open>classes_\<close>; \<^verbatim>\<open>transform\<close> refuses a label it has not seen and
  maps every other one to its place among the classes (\<^verbatim>\<open>np.searchsorted\<close>).
\<close>

record 'a LabelEncoder =
  classes :: "'a list"

definition fit :: "'a::linorder list \<Rightarrow> 'a LabelEncoder" where
  "fit labels = \<lparr>classes = sort (remdups labels)\<rparr>"

definition searchsorted :: "'a::linorder list \<Rightarrow> 'a \<Rightarrow> nat" where
  "searchsorted cs v = length (filter (\<lambda>c. c < v) cs)"

definition transform :: "'a::linorder LabelEncoder \<Rightarrow> 'a list \<Rightarrow> error + nat list" where
  "transform le labels =
     (if list_all (\<lambda>v. v \<in> set (classes le)) labels
      then Inr (map (searchsorted (classes le)) labels)
      else Inl (ValueError ''y contains previously unseen labels''))"

text \<open>
  \<^verbatim>\<open>get_data\<close>, as the notebook writes it to \<^verbatim>\<open>get_data.py\<close>. Two things come from
  outside: what \<^verbatim>\<open>pd.read_csv\<close> fetched from the blob store (or the error it raised), and
  scikit-learn's \<^verbatim>\<open>train_test_split\<close>, called with \<^verbatim>\<open>test_size=0.1\<close> and
  \<^verbatim>\<open>random_state=42\<close>, which returns the four parts or raises.
\<close>

definition get_data ::
  "error + ('a::linorder) frame \<Rightarrow>
   ('a frame \<Rightarrow> nat list \<Rightarrow> real \<Rightarrow> nat \<Rightarrow> error + 'a frame \<times> 'a frame \<times> nat list \<times> nat list) \<Rightarrow>
   error + (string \<times> 'a data) list" where
  "get_data read_csv train_test_split =
     (case read_csv of Inl e \<Rightarrow> Inl e | Inr df \<Rightarrow>
     (case column_values df ''Label'' of Inl e \<Rightarrow> Inl e | Inr values \<Rightarrow>
     (let le = fit values in
     (case column_values df ''Label'' of Inl e \<Rightarrow> Inl e | Inr values' \<Rightarrow>
     (case transform le values' of Inl e \<Rightarrow> Inl e | Inr y \<Rightarrow>
     (case drop_columns df [''Label''] of Inl e \<Rightarrow> Inl e | Inr df' \<Rightarrow>
     (case train_test_split df' y 0.1 42 of Inl e \<Rightarrow> Inl e | Inr (df_train, _, y_train, _) \<Rightarrow>
      Inr [(''X'', DataFrame df'), (''y'', ndarray y)])))))))"

section \<open>The workspace service\<close>

text \<open>
  Modelled from the spec: the body of \<^verbatim>\<open>Workspace.create\<close> runs in the Azure ML SDK and
  the service behind it, whose code is not in the repository. The spec gives the
  provisioning call four strings and has it return a remote resource reference, or fail
  when the resource already exists or the permissions are insufficient, with the creation
  of the remote resource as its side effect. The notebook adds a third failure: the caller
  is neither owner nor contributor of a subscription that never had a workspace.
\<close>

record azure =
  workspaces :: "(string \<times> string \<times> string) \<rightharpoonup> string"
  may_create_in :: "(string \<times> string) list"
  owner_or_contributor :: "string list"
  had_workspaces :: "string list"

definition provision :: "string \<Rightarrow> string \<Rightarrow> string \<Rightarrow> string \<Rightarrow> azure \<Rightarrow> (error + unit) \<times> azure" where
  "provision n sub rg loc az =
     (if workspaces az (sub, rg, n) \<noteq> None then (Inl ResourceExists, az)
      else if (sub, rg) \<notin> set (may_create_in az) then (Inl InsufficientPermission, az)
      else if sub \<notin> set (owner_or_contributor az) \<and> sub \<notin> set (had_workspaces az)
        then (Inl InsufficientPermission, az)
      else (Inr (), az\<lparr>workspaces := (workspaces az)((sub, rg, n) \<mapsto> loc),
                         had_workspaces := sub # had_workspaces az\<rparr>))"

section \<open>What a run leaves in the history\<close>

text \<open>
  A history of calls shows no handling when every call before its last one returned, and
  a call that raised is the last one and raised the very exception the run ends with:
  nothing was called after the failure, and the failed call was not made again.
\<close>

fun unhandled :: "(string \<times> error option) list \<Rightarrow> error + 'a \<Rightarrow> bool" where
  "unhandled [] res = True"
| "unhandled ((name, None) # cs) res = unhandled cs res"
| "unhandled ((name, Some e) # cs) res = (cs = [] \<and> (case res of Inl e' \<Rightarrow> e' = e | Inr _ \<Rightarrow> False))"

definition emits :: "string set \<Rightarrow> (('r, 'z) world_scheme, 'a) py \<Rightarrow> bool" where
  "emits N m = (\<forall>s res s'. m s = (res, s') \<longrightarrow>
     (\<exists>cs. trace s' = trace s @ cs \<and> fst ` set cs \<subseteq> N \<and> unhandled cs res))"

definition preserves :: "('s \<Rightarrow> 'v) \<Rightarrow> ('s, 'a) py \<Rightarrow> bool" where
  "preserves field m = (\<forall>s res s'. m s = (res, s') \<longrightarrow> field s' = field s)"

section \<open>Where a column of the metrics table comes from\<close>



section \<open>A scripted service\<close>

text \<open>
  A service to run the notebooks against: its state counts the calls it has answered, a
  call fails when the plan names an exception for it, and the other answers are fixed. A
  run has two children, whose iteration is the digit their name ends with.
\<close>

definition answer :: "(string \<rightharpoonup> error) \<Rightarrow> string \<Rightarrow> 'a \<Rightarrow> nat \<Rightarrow> (error + 'a) \<times> nat" where
  "answer plan name x r = (case plan name of Some e \<Rightarrow> (Inl e, Suc r) | None \<Rightarrow> (Inr x, Suc r))"

definition scripted :: "(string \<rightharpoonup> error) \<Rightarrow> nat azureml" where
  "scripted plan =
     \<lparr>VERSION = ''0.1.59'',
      Workspace_create = (\<lambda>n sub rg loc. answer plan ''Workspace.create'' ()),
      Workspace_get = (\<lambda>n sub rg. answer plan ''Workspace'' ''eastus2''),
      Workspace_get_details = (\<lambda>w. answer plan ''Workspace.get_details'' [(''name'', ws_name w)]),
      Experiment_init = (\<lambda>w n. answer plan ''Experiment'' ()),
      set_diagnostics_collection = (\<lambda>b. answer plan ''set_diagnostics_collection'' ()),
      RemoteCompute_attach = (\<lambda>w n a u p port. answer plan ''RemoteCompute.attach'' (RemoteCompute n)),
      Experiment_submit = (\<lambda>e c. answer plan ''Experiment.submit'' (AutoMLRun ''AutoML_1'')),
      RunDetails_show = (\<lambda>r. answer plan ''RunDetails.show'' ()),
      Run_get_children = (\<lambda>r. answer plan ''Run.get_children'' [AutoMLRun ''AutoML_1_1'', AutoMLRun ''AutoML_1_0'']),
      Run_get_properties = (\<lambda>r. answer plan ''Run.get_properties''
        [(''iteration'', (case r of AutoMLRun n \<Rightarrow> [last n]))]),
      Run_get_metrics = (\<lambda>r. answer plan ''Run.get_metrics''
        [(''AUC_weighted'', PyFloat (1 / 2)),
         (''confusion_matrix'', PyList [PyInt 3, PyInt 1]),
         (''num_classes'', PyInt 9),
         (''accuracy'', PyFloat (3 / 4))]),
      Run_cancel = (\<lambda>r. answer plan ''Run.cancel'' ()),
      Run_get_output = (\<lambda>r i. answer plan ''Run.get_output'' (AutoMLRun ''AutoML_1_0'', Model ''pipeline'')),
      Run_register_model = (\<lambda>r d t. answer plan ''Run.register_model'' ''AutoML_1_0_model'')\<rparr>"


text \<open>A kernel that has run no cell yet, on given files.\<close>

definition fresh_configuration :: "filesystem \<Rightarrow> nat configuration" where
  "fresh_configuration fs =
     \<lparr>files = fs, service = 0, trace = [], ws = None,
      subscription_id = None, resource_group = None, workspace_name = None,
      workspace_region = None, my_workspace = None, sample_projects_folder = None\<rparr>"

definition fresh_remote_execution :: "filesystem \<Rightarrow> nat remote_execution" where
  "fresh_remote_execution fs =
     \<lparr>files = fs, service = 0, trace = [], ws = None,
      experiment_name = None, project_folder = None, experiment = None, output = None,
      dsvm_name = None, dsvm_ip_addr = None, dsvm_username = None, dsvm_password = None,
      dsvm_compute = None, automl_settings = None, automl_config = None, remote_run = None,
      children = None, metricslist = None, run = None, properties = None, metrics = None,
      rundata = None, best_run = None, fitted_model = None, iteration = None,
      zero_run = None, zero_model = None, description = None, tags = None\<rparr>"

text \<open>The files the configuration notebook leaves behind for the workspace \<^verbatim>\<open>myws\<close>.\<close>

definition configured :: filesystem where
  "configured =
     [[''aml_config''] \<mapsto> Dir,
      [''aml_config'', ''config.json''] \<mapsto>
        JsonFile [(''subscription_id'', ''<subscription_id>''),
                  (''resource_group'', ''myrg''),
                  (''workspace_name'', ''myws'')],
      [''sample_projects''] \<mapsto> Dir]"

text \<open>
  The kernel of the remote-execution notebook when everything is ready for the submission,
  and once the run is submitted.
\<close>

definition prepared :: "nat remote_execution" where
  "prepared = snd (run_cells (before_submission (scripted Map.empty)) (fresh_remote_execution configured))"

definition submitted :: "nat remote_execution" where
  "submitted = snd (training_the_model (scripted Map.empty) prepared)"

text \<open>
  The same SDK with the workspace service above behind \<^verbatim>\<open>Workspace.create\<close> and the
  constructor; the calls of the remote-execution notebook are of no interest here and
  fail. The account \<open>one_workspace\<close> owns a subscription that holds the workspace
  \<^verbatim>\<open>myws\<close> and may create workspaces in the resource group \<^verbatim>\<open>myrg\<close> only.
\<close>

definition hosted :: "azure azureml" where
  "hosted =
     \<lparr>VERSION = ''0.1.59'',
      Workspace_create = provision,
      Workspace_get = (\<lambda>n sub rg az.
        (case workspaces az (sub, rg, n) of None \<Rightarrow> Inl (ServiceError n) | Some loc \<Rightarrow> Inr loc, az)),
      Workspace_get_details = (\<lambda>w az. (Inr [(''name'', ws_name w)], az)),
      Experiment_init = (\<lambda>w n az. (Inl (ServiceError n), az)),
      set_diagnostics_collection = (\<lambda>b az. (Inr (), az)),
      RemoteCompute_attach = (\<lambda>w n a u p port az. (Inl (ServiceError n), az)),
      Experiment_submit = (\<lambda>e c az. (Inl (ServiceError ''submit''), az)),
      RunDetails_show = (\<lambda>r az. (Inl (ServiceError ''show''), az)),
      Run_get_children = (\<lambda>r az. (Inl (ServiceError ''get_children''), az)),
      Run_get_properties = (\<lambda>r az. (Inl (ServiceError ''get_properties''), az)),
      Run_get_metrics = (\<lambda>r az. (Inl (ServiceError ''get_metrics''), az)),
      Run_cancel = (\<lambda>r az. (Inl (ServiceError ''cancel''), az)),
      Run_get_output = (\<lambda>r i az. (Inl (ServiceError ''get_output''), az)),
      Run_register_model = (\<lambda>r d t az. (Inl (ServiceError ''register_model''), az))\<rparr>"

definition one_workspace :: "azure world" where
  "one_workspace =
     \<lparr>files = Map.empty,
      service = \<lparr>workspaces = [(''<subscription_id>'', ''myrg'', ''myws'') \<mapsto> ''eastus2''],
                 may_create_in = [(''<subscription_id>'', ''myrg'')],
                 owner_or_contributor = [''<subscription_id>''],
                 had_workspaces = [''<subscription_id>'']\<rparr>,
      trace = []\<rparr>"

section \<open>Running a notebook on concrete inputs\<close>

lemmas run_defs = returnE_def raise_def bindE_def assign_def getvar_def call_def on_files_def
  on_service_def os_path_isdir_def os_path_exists_def os_mkdir_def os_makedirs_def getitem_def
  outcome_def answer_def scripted_def Workspace_create_call_def Workspace_init_def
  get_details_def write_config_def read_json_def from_config_def
  stat_def exists_path_def isdir_def mkdir_def makedirs_def mkdir_at_def write_file_def
  config_file_def config_dir_def save_descriptor_def descriptor_def

lemmas cell_defs = workspace_parameters_def creating_a_workspace_def
  configuring_your_local_environment_def load_the_workspace_def create_sample_projects_folder_def
  create_experiment_def diagnostics_def attach_a_remote_linux_dsvm_def
  create_project_folder_def create_get_data_file_def instantiate_automl_def AutoMLConfig_init_def
  automl_settings_dict_def Experiment_name_def training_the_model_def
  widget_for_monitoring_runs_def record_metrics_def retrieve_all_child_runs_def canceling_runs_def
  retrieve_the_best_model_def model_from_a_specific_iteration_def register_fitted_model_def
  py_int_def

lemma components_simps:
  "components ''./sample_projects'' = [''sample_projects'']"
  "components ''./aml_config'' = [''aml_config'']"
  "components ''./aml_config/config.json'' = [''aml_config'', ''config.json'']"
  "components ''./sample_projects/automl-remote-dsvm-blobstore'' = [''sample_projects'', ''automl-remote-dsvm-blobstore'']"
  "components ''./sample_projects/automl-remote-dsvm-blobstore/get_data.py'' = [''sample_projects'', ''automl-remote-dsvm-blobstore'', ''get_data.py'']"
  by (simp_all add: components_def)

lemma int_of_str_digit: "int_of_str ''0'' = Some 0" "int_of_str ''1'' = Some 1"
  by (simp_all add: int_of_str_def strip_def is_space_def digit_def)

lemma prepared_eval:
  "experiment prepared = Some (Experiment \<lparr>ws_name = ''myws'', ws_subscription_id = ''<subscription_id>'',
     ws_resource_group = ''myrg'', ws_location = ''eastus2''\<rparr> ''automl-remote-dsvm-blobstore'') \<and>
   automl_settings prepared = Some automl_settings_dict \<and>
   automl_config prepared = Some \<lparr>task = ''classification'',
     path = ''./sample_projects/automl-remote-dsvm-blobstore'',
     compute_target = RemoteCompute ''mydsvm1'',
     data_script = ''./sample_projects/automl-remote-dsvm-blobstore/get_data.py'',
     settings = automl_settings_dict\<rparr> \<and>
   service prepared = 4"
  by (simp add: prepared_def before_submission_def cell_defs run_defs components_simps
      fresh_remote_execution_def configured_def)


section \<open>Histories compose\<close>

lemma unhandled_append:
  "unhandled cs1 (Inr x) \<Longrightarrow> unhandled cs2 res \<Longrightarrow> unhandled (cs1 @ cs2) res"
  by (induction cs1 "Inr x :: error + 'a" rule: unhandled.induct) auto

lemma unhandled_Inl: "unhandled cs (Inl e :: error + 'a) = unhandled cs (Inl e :: error + 'b)"
  by (induction cs "Inl e :: error + 'a" rule: unhandled.induct) auto

lemma emits_mono:
  assumes "emits N m" and "N \<subseteq> N'"
  shows "emits N' m"
  unfolding emits_def
proof (intro allI impI)
  fix s res s'
  assume "m s = (res, s')"
  with assms(1) obtain cs where "trace s' = trace s @ cs" "fst ` set cs \<subseteq> N" "unhandled cs res"
    unfolding emits_def by blast
  with assms(2) have "trace s' = trace s @ cs \<and> fst ` set cs \<subseteq> N' \<and> unhandled cs res"
    by auto
  then show "\<exists>cs. trace s' = trace s @ cs \<and> fst ` set cs \<subseteq> N' \<and> unhandled cs res" ..
qed

lemma emits_returnE: "emits N (returnE x)"
  by (simp add: emits_def returnE_def)

lemma emits_raise: "emits N (raise e)"
  by (simp add: emits_def raise_def)

lemma emits_getvar: "emits N (getvar f n)"
  by (auto simp add: emits_def getvar_def split: option.splits)

lemma emits_assign: "(\<And>s. trace (f s) = trace s) \<Longrightarrow> emits N (assign f)"
  by (simp add: emits_def assign_def)

lemma emits_getitem: "emits N (getitem d k)"
  by (simp add: getitem_def emits_returnE emits_raise split: option.splits)

lemma emits_py_int: "emits N (py_int t)"
  by (simp add: py_int_def emits_returnE emits_raise split: option.splits)

lemma emits_os_path: "emits N (os_path_isdir p)" "emits N (os_path_exists p)"
  by (simp_all add: emits_def os_path_isdir_def os_path_exists_def)

lemma emits_call_service: "n \<in> N \<Longrightarrow> emits N (call n (on_service f))"
  by (auto simp add: emits_def call_def on_service_def outcome_def split: prod.splits sum.splits)

lemma emits_call_files: "n \<in> N \<Longrightarrow> emits N (call n (on_files f))"
  by (auto simp add: emits_def call_def on_files_def outcome_def split: prod.splits sum.splits)

lemma emits_bindE:
  assumes m: "emits N m" and k: "\<And>x. emits N (k x)"
  shows "emits N (bindE m k)"
  unfolding emits_def
proof (intro allI impI)
  fix s res s'
  assume run: "bindE m k s = (res, s')"
  obtain r1 s1 where m1: "m s = (r1, s1)" by (cases "m s")
  from m m1 obtain cs1 where t1: "trace s1 = trace s @ cs1" "fst ` set cs1 \<subseteq> N" "unhandled cs1 r1"
    unfolding emits_def by blast
  show "\<exists>cs. trace s' = trace s @ cs \<and> fst ` set cs \<subseteq> N \<and> unhandled cs res"
  proof (cases r1)
    case (Inl e)
    with run m1 have "res = Inl e" "s' = s1" by (simp_all add: bindE_def)
    with t1 Inl show ?thesis using unhandled_Inl by blast
  next
    case (Inr x)
    with run m1 have "k x s1 = (res, s')" by (simp add: bindE_def)
    with k obtain cs2 where t2: "trace s' = trace s1 @ cs2" "fst ` set cs2 \<subseteq> N" "unhandled cs2 res"
      unfolding emits_def by blast
    from t1 t2 Inr have "trace s' = trace s @ (cs1 @ cs2)" "fst ` set (cs1 @ cs2) \<subseteq> N"
      "unhandled (cs1 @ cs2) res"
      by (auto intro: unhandled_append)
    then show ?thesis by blast
  qed
qed

lemma emits_for_each: "(\<And>x. emits N (body x)) \<Longrightarrow> emits N (for_each xs body)"
proof (induction xs)
  case Nil
  show ?case by (simp add: emits_returnE)
next
  case (Cons x xs)
  show ?case unfolding for_each.simps by (rule emits_bindE) (rule Cons)+
qed

lemma emits_run_cells: "(\<And>c. c \<in> set cs \<Longrightarrow> emits N c) \<Longrightarrow> emits N (run_cells cs)"
proof (induction cs)
  case Nil
  show ?case by (simp add: emits_returnE)
next
  case (Cons c cs)
  have "emits N c" by (rule Cons.prems) simp
  moreover have "emits N (run_cells cs)" by (rule Cons.IH) (simp add: Cons.prems)
  ultimately show ?case unfolding run_cells.simps by (intro emits_bindE)
qed

lemma emits_if: "emits N a \<Longrightarrow> emits N b \<Longrightarrow> emits N (if c then a else b)"
  by simp

lemma emits_case_prod: "(\<And>a b. emits N (f a b)) \<Longrightarrow> emits N (case_prod f x)"
  by (cases x) simp

lemma emits_read_json: "emits N (read_json p)"
  by (auto simp add: emits_def read_json_def split: option.splits node.splits)

lemma emits_Workspace_init: "''Workspace'' \<in> N \<Longrightarrow> emits N (Workspace_init sdk n sub rg)"
  unfolding Workspace_init_def by (intro emits_bindE emits_call_service emits_returnE)

lemma emits_Workspace_create_call:
  "''Workspace.create'' \<in> N \<Longrightarrow> emits N (Workspace_create_call sdk n sub rg loc)"
  unfolding Workspace_create_call_def by (intro emits_bindE emits_call_service emits_returnE)

lemma emits_get_details: "''Workspace.get_details'' \<in> N \<Longrightarrow> emits N (get_details sdk w)"
  unfolding get_details_def by (rule emits_call_service)

lemma emits_write_config: "''Workspace.write_config'' \<in> N \<Longrightarrow> emits N (write_config w)"
  unfolding write_config_def by (rule emits_call_files)

lemma emits_from_config: "''Workspace'' \<in> N \<Longrightarrow> emits N (from_config sdk)"
  unfolding from_config_def
  by (intro emits_bindE emits_read_json emits_getitem emits_Workspace_init)

lemma emits_os_mkdir: "''os.mkdir'' \<in> N \<Longrightarrow> emits N (os_mkdir p)"
  unfolding os_mkdir_def by (rule emits_call_files)

lemma emits_os_makedirs: "''os.makedirs'' \<in> N \<Longrightarrow> emits N (os_makedirs p)"
  unfolding os_makedirs_def by (rule emits_call_files)

lemma emits_AutoMLConfig_init: "emits N (AutoMLConfig_init t p c d kw)"
  unfolding AutoMLConfig_init_def
  by (cases "filter (\<lambda>k. k \<in> set [''task'', ''path'', ''compute_target'', ''data_script'']) (map fst kw)")
     (simp_all only: list.case emits_returnE emits_raise)

lemmas emits_steps = emits_bindE emits_returnE emits_raise emits_getvar emits_assign emits_getitem
  emits_py_int emits_os_path emits_call_service emits_call_files emits_for_each emits_if
  emits_case_prod emits_read_json emits_Workspace_init emits_Workspace_create_call
  emits_get_details emits_write_config emits_from_config emits_os_mkdir emits_os_makedirs
  emits_AutoMLConfig_init

lemma emits_workspace_parameters: "emits UNIV (workspace_parameters)"
  unfolding workspace_parameters_def by (intro emits_steps) simp_all

lemma emits_creating_a_workspace: "emits UNIV (creating_a_workspace sdk)"
  unfolding creating_a_workspace_def by (intro emits_steps) simp_all

lemma emits_configuring_your_local_environment: "emits UNIV (configuring_your_local_environment sdk)"
  unfolding configuring_your_local_environment_def by (intro emits_steps) simp_all

lemma emits_load_the_workspace: "emits UNIV (load_the_workspace sdk)"
  unfolding load_the_workspace_def by (intro emits_steps) simp_all

lemma emits_create_sample_projects_folder: "emits UNIV (create_sample_projects_folder)"
  unfolding create_sample_projects_folder_def by (intro emits_steps) simp_all

lemma emits_create_experiment: "emits (- {''Experiment.submit''}) (create_experiment sdk)"
  unfolding create_experiment_def by (intro emits_steps) simp_all

lemma emits_diagnostics: "emits (- {''Experiment.submit''}) (diagnostics sdk)"
  unfolding diagnostics_def by (intro emits_steps) simp_all

lemma emits_attach_a_remote_linux_dsvm: "emits (- {''Experiment.submit''}) (attach_a_remote_linux_dsvm sdk)"
  unfolding attach_a_remote_linux_dsvm_def by (intro emits_steps) simp_all

lemma emits_create_project_folder: "emits (- {''Experiment.submit''}) (create_project_folder)"
  unfolding create_project_folder_def by (intro emits_steps) simp_all

lemma emits_create_get_data_file: "emits (- {''Experiment.submit''}) (create_get_data_file)"
  unfolding create_get_data_file_def by (intro emits_steps) simp_all

lemma emits_instantiate_automl: "emits (- {''Experiment.submit''}) (instantiate_automl)"
  unfolding instantiate_automl_def by (intro emits_steps) simp_all

lemma emits_record_metrics: "emits (- {''Experiment.submit''}) (record_metrics sdk r)"
  unfolding record_metrics_def by (intro emits_steps) simp_all

lemma emits_widget_for_monitoring_runs: "emits (- {''Experiment.submit''}) (widget_for_monitoring_runs sdk)"
  unfolding widget_for_monitoring_runs_def by (intro emits_steps) simp_all

lemma emits_retrieve_all_child_runs: "emits (- {''Experiment.submit''}) (retrieve_all_child_runs sdk)"
  unfolding retrieve_all_child_runs_def by (intro emits_steps emits_record_metrics) simp_all

lemma emits_canceling_runs: "emits (- {''Experiment.submit''}) (canceling_runs sdk)"
  unfolding canceling_runs_def by (intro emits_steps) simp_all

lemma emits_retrieve_the_best_model: "emits (- {''Experiment.submit''}) (retrieve_the_best_model sdk)"
  unfolding retrieve_the_best_model_def by (intro emits_steps) simp_all

lemma emits_model_from_a_specific_iteration: "emits (- {''Experiment.submit''}) (model_from_a_specific_iteration sdk)"
  unfolding model_from_a_specific_iteration_def by (intro emits_steps) simp_all

lemma emits_register_fitted_model: "emits (- {''Experiment.submit''}) (register_fitted_model sdk)"
  unfolding register_fitted_model_def by (intro emits_steps) simp_all

lemma emits_training_the_model: "emits UNIV (training_the_model sdk)"
  unfolding training_the_model_def by (intro emits_steps) simp_all

lemma emits_before_submission:
  "c \<in> set (before_submission sdk) \<Longrightarrow> emits (- {''Experiment.submit''}) c"
  unfolding before_submission_def
  using emits_create_experiment emits_diagnostics emits_attach_a_remote_linux_dsvm
    emits_create_project_folder emits_create_get_data_file emits_instantiate_automl
  by auto

lemma emits_after_submission:
  "c \<in> set (after_submission sdk) \<Longrightarrow> emits (- {''Experiment.submit''}) c"
  unfolding after_submission_def
  using emits_widget_for_monitoring_runs emits_retrieve_all_child_runs emits_canceling_runs
    emits_retrieve_the_best_model emits_model_from_a_specific_iteration emits_register_fitted_model
  by auto

lemma emits_remote_execution_cell:
  assumes "c \<in> set (remote_execution_notebook sdk)"
  shows "emits UNIV c"
proof -
  from assms consider "c \<in> set (before_submission sdk)" | "c = training_the_model sdk"
    | "c \<in> set (after_submission sdk)"
    by (auto simp add: remote_execution_notebook_def)
  then show ?thesis
  proof cases
    case 1
    then have "emits (- {''Experiment.submit''}) c" by (rule emits_before_submission)
    then show ?thesis by (rule emits_mono) simp
  next
    case 2
    then show ?thesis by (simp add: emits_training_the_model)
  next
    case 3
    then have "emits (- {''Experiment.submit''}) c" by (rule emits_after_submission)
    then show ?thesis by (rule emits_mono) simp
  qed
qed

lemma emits_configuration_cell:
  "c \<in> set (configuration_notebook sdk) \<Longrightarrow> emits UNIV c"
  unfolding configuration_notebook_def
  using emits_workspace_parameters emits_creating_a_workspace
    emits_configuring_your_local_environment emits_load_the_workspace
    emits_create_sample_projects_folder
  by auto

section \<open>Failures of the service\<close>

text \<open>
  Claim C5. No failure raised by a remote SDK call is caught, classified or retried by the
  notebooks. Whatever cells of either notebook are run, in whatever order, and whatever the
  service answers: a call that raised is the last call the run made, and the run ends with
  the very exception that call raised.
\<close>

theorem sdk_failures_propagate:
  "(set cells \<subseteq> set (configuration_notebook sdk) \<longrightarrow> run_cells cells s = (res, s') \<longrightarrow>
      (\<exists>cs. trace s' = trace s @ cs \<and> unhandled cs res)) \<and>
   (set cells' \<subseteq> set (remote_execution_notebook sdk) \<longrightarrow> run_cells cells' t = (res', t') \<longrightarrow>
      (\<exists>cs. trace t' = trace t @ cs \<and> unhandled cs res'))"
proof (intro conjI impI)
  assume "set cells \<subseteq> set (configuration_notebook sdk)" and run: "run_cells cells s = (res, s')"
  then have "emits UNIV (run_cells cells)"
    by (intro emits_run_cells emits_configuration_cell) auto
  with run show "\<exists>cs. trace s' = trace s @ cs \<and> unhandled cs res"
    unfolding emits_def by blast
next
  assume "set cells' \<subseteq> set (remote_execution_notebook sdk)" and run: "run_cells cells' t = (res', t')"
  then have "emits UNIV (run_cells cells')"
    by (intro emits_run_cells emits_remote_execution_cell) auto
  with run show "\<exists>cs. trace t' = trace t @ cs \<and> unhandled cs res'"
    unfolding emits_def by blast
qed

theorem sdk_failures_propagate_witness:
  "fst (run_cells (configuration_notebook (scripted [''Workspace.create'' \<mapsto> ResourceExists]))
         (fresh_configuration Map.empty)) = Inl ResourceExists \<and>
   (\<exists>cs. trace (snd (run_cells (configuration_notebook (scripted [''Workspace.create'' \<mapsto> ResourceExists]))
         (fresh_configuration Map.empty))) = trace (fresh_configuration Map.empty) @ cs \<and>
      unhandled cs (fst (run_cells (configuration_notebook (scripted [''Workspace.create'' \<mapsto> ResourceExists]))
         (fresh_configuration Map.empty)))) \<and>
   fst (run_cells (remote_execution_notebook (scripted [''Experiment.submit'' \<mapsto> NetworkFailure]))
         (fresh_remote_execution configured)) = Inl NetworkFailure \<and>
   trace (snd (run_cells (remote_execution_notebook (scripted [''Experiment.submit'' \<mapsto> NetworkFailure]))
         (fresh_remote_execution configured))) =
     [(''Workspace'', None), (''Experiment'', None), (''set_diagnostics_collection'', None),
      (''RemoteCompute.attach'', None), (''os.makedirs'', None), (''%%writefile'', None),
      (''Experiment.submit'', Some NetworkFailure)] \<and>
   (\<exists>cs. trace (snd (run_cells (remote_execution_notebook (scripted [''Experiment.submit'' \<mapsto> NetworkFailure]))
         (fresh_remote_execution configured))) = trace (fresh_remote_execution configured) @ cs \<and>
      unhandled cs (fst (run_cells (remote_execution_notebook (scripted [''Experiment.submit'' \<mapsto> NetworkFailure]))
         (fresh_remote_execution configured))))"
  (is "?A \<and> ?B \<and> ?C \<and> ?D \<and> ?E")
proof -
  have a: ?A
    by (simp add: configuration_notebook_def cell_defs run_defs fresh_configuration_def)
  have b: ?B
    using sdk_failures_propagate [THEN conjunct1, rule_format, OF subset_refl surjective_pairing] .
  have cd: "?C \<and> ?D"
    by (simp add: remote_execution_notebook_def before_submission_def after_submission_def
        cell_defs run_defs fresh_remote_execution_def configured_def components_simps)
  have e: ?E
    using sdk_failures_propagate [THEN conjunct2, rule_format, OF subset_refl surjective_pairing] .
  from a b cd e show ?thesis by blast
qed

section \<open>The sample-projects folder\<close>

lemma sample_projects_cell_cases:
  "create_sample_projects_folder s = (res, s') \<Longrightarrow>
     called ''os.mkdir'' s s' = (if isdir (files s) ''./sample_projects'' then 0 else 1) \<and>
     (isdir (files s) ''./sample_projects'' \<longrightarrow> res = Inr () \<and> files s' = files s) \<and>
     (res = Inr () \<longrightarrow> isdir (files s') ''./sample_projects'')"
  by (auto simp add: create_sample_projects_folder_def run_defs components_simps called_def
      split: if_splits option.splits node.splits sum.splits prod.splits)

lemma rerun_sample_projects_cell:
  "isdir (files s) ''./sample_projects'' \<Longrightarrow>
   \<exists>s''. rerun n create_sample_projects_folder s = (Inr (), s'') \<and> files s'' = files s"
proof (induction n arbitrary: s)
  case 0
  then show ?case by (simp add: returnE_def)
next
  case (Suc n)
  obtain res s1 where run: "create_sample_projects_folder s = (res, s1)"
    by (cases "create_sample_projects_folder s")
  with Suc.prems have ok: "res = Inr ()" "files s1 = files s"
    using sample_projects_cell_cases [OF run] by auto
  with Suc.prems have "isdir (files s1) ''./sample_projects''" by simp
  from Suc.IH [OF this] obtain s'' where
    "rerun n create_sample_projects_folder s1 = (Inr (), s'')" "files s'' = files s1"
    by blast
  with run ok show ?case by (simp add: bindE_def)
qed

text \<open>
  Claim C10, as amended. Creating the sample-projects folder is safe to repeat:
  \<^verbatim>\<open>os.mkdir\<close> is called exactly when \<^verbatim>\<open>./sample_projects\<close> is not an existing directory;
  when the directory exists the cell raises nothing and leaves the files as they are; and
  once the cell has succeeded, running it any number of times again succeeds and changes
  no file.
\<close>

theorem sample_projects_folder_repeatable:
  "create_sample_projects_folder s = (res, s') \<Longrightarrow>
     called ''os.mkdir'' s s' = (if isdir (files s) ''./sample_projects'' then 0 else 1) \<and>
     (isdir (files s) ''./sample_projects'' \<longrightarrow> res = Inr () \<and> files s' = files s) \<and>
     (res = Inr () \<longrightarrow>
        (\<forall>n. \<exists>s''. rerun n create_sample_projects_folder s' = (Inr (), s'') \<and> files s'' = files s'))"
  using sample_projects_cell_cases [of s res s'] rerun_sample_projects_cell [of s'] by blast

theorem sample_projects_folder_repeatable_witness:
  "fst (create_sample_projects_folder (fresh_configuration Map.empty)) = Inr () \<and>
   called ''os.mkdir'' (fresh_configuration Map.empty)
     (snd (create_sample_projects_folder (fresh_configuration Map.empty))) = 1 \<and>
   (\<exists>s''. rerun 3 create_sample_projects_folder
       (snd (create_sample_projects_folder (fresh_configuration Map.empty))) = (Inr (), s'') \<and>
     files s'' = files (snd (create_sample_projects_folder (fresh_configuration Map.empty))))"
proof -
  have ok: "fst (create_sample_projects_folder (fresh_configuration Map.empty)) = Inr ()"
    by (simp add: create_sample_projects_folder_def run_defs components_simps fresh_configuration_def)
  have absent: "\<not> isdir (files (fresh_configuration Map.empty)) ''./sample_projects''"
    by (simp add: isdir_def stat_def components_simps fresh_configuration_def)
  from sample_projects_folder_repeatable [OF surjective_pairing] ok absent
  show ?thesis by auto
qed

text \<open>
  The claim as first stated has \<^verbatim>\<open>os.mkdir\<close> called only when the path does not exist.
  With a regular file under that name the path exists, \<^verbatim>\<open>os.path.isdir\<close> is false, the call
  is made and raises \<^verbatim>\<open>FileExistsError\<close>, on the first run and on every later one.
\<close>

theorem mkdir_on_existing_file_counterexample:
  "exists_path [[''sample_projects''] \<mapsto> TextFile] ''./sample_projects'' \<and>
   called ''os.mkdir'' (fresh_configuration [[''sample_projects''] \<mapsto> TextFile])
     (snd (create_sample_projects_folder (fresh_configuration [[''sample_projects''] \<mapsto> TextFile]))) = 1 \<and>
   fst (create_sample_projects_folder (fresh_configuration [[''sample_projects''] \<mapsto> TextFile])) =
     Inl (FileExistsError [''sample_projects'']) \<and>
   fst (rerun 2 create_sample_projects_folder (fresh_configuration [[''sample_projects''] \<mapsto> TextFile])) =
     Inl (FileExistsError [''sample_projects''])"
  by (simp add: create_sample_projects_folder_def run_defs components_simps fresh_configuration_def
      called_def numeral_2_eq_2)

section \<open>The workspace descriptor\<close>

lemma save_descriptor_writes:
  assumes "save_descriptor w fs = Inr fs'"
  shows "fs' [''aml_config'', ''config.json''] = Some (JsonFile (descriptor w))"
    and "p \<noteq> [''aml_config''] \<Longrightarrow> p \<noteq> [''aml_config'', ''config.json''] \<Longrightarrow> fs' p = fs p"
  using assms
  by (auto simp add: save_descriptor_def write_file_def mkdir_def mkdir_at_def exists_path_def
      stat_def config_dir_def config_file_def components_simps Let_def
      split: if_splits option.splits node.splits sum.splits)

lemma write_config_writes:
  assumes "write_config w s = (Inr (), s')"
  shows "stat (files s') (components config_file) = Some (JsonFile (descriptor w))"
    and "p \<noteq> components config_dir \<Longrightarrow> p \<noteq> components config_file \<Longrightarrow> files s' p = files s p"
proof -
  from assms obtain fs' where fs': "save_descriptor w (files s) = Inr fs'" "files s' = fs'"
    by (auto simp add: write_config_def call_def on_files_def split: sum.splits prod.splits)
  from save_descriptor_writes(1) [OF fs'(1)] fs'(2)
  show "stat (files s') (components config_file) = Some (JsonFile (descriptor w))"
    by (simp add: stat_def config_file_def components_simps)
  assume "p \<noteq> components config_dir" "p \<noteq> components config_file"
  with save_descriptor_writes(2) [OF fs'(1), of p] fs'(2)
  show "files s' p = files s p"
    by (simp add: config_file_def config_dir_def components_simps)
qed

lemma from_config_reads:
  assumes "stat (files s) (components config_file) = Some (JsonFile (descriptor w))"
    and "from_config sdk s = (Inr w', s')"
  shows "ws_subscription_id w' = ws_subscription_id w \<and> ws_resource_group w' = ws_resource_group w \<and>
         ws_name w' = ws_name w"
  using assms
  by (auto simp add: from_config_def read_json_def bindE_def getitem_def descriptor_def returnE_def
      raise_def Workspace_init_def call_def on_service_def
      split: sum.splits prod.splits)

text \<open>
  Claim C1. Writing the configuration file and loading it back round-trips the identity
  of the workspace: whenever \<^verbatim>\<open>write_config\<close> has written the descriptor of a workspace
  and \<^verbatim>\<open>from_config\<close> then returns a workspace from the same files (in the same kernel or
  in a later session, whatever the service did in between), that workspace has the same
  subscription id, resource group name and workspace name.
\<close>

theorem config_round_trip:
  "write_config w s = (Inr (), s1) \<Longrightarrow> files s2 = files s1 \<Longrightarrow> from_config sdk s2 = (Inr w', s3) \<Longrightarrow>
     ws_subscription_id w' = ws_subscription_id w \<and> ws_resource_group w' = ws_resource_group w \<and>
     ws_name w' = ws_name w"
  using write_config_writes(1) [of w s s1] from_config_reads [of s2 w sdk w' s3] by simp


theorem config_round_trip_witness:
  "fst (write_config \<lparr>ws_name = ''myws'', ws_subscription_id = ''<subscription_id>'',
          ws_resource_group = ''myrg'', ws_location = ''eastus2''\<rparr> (fresh_configuration Map.empty)) = Inr () \<and>
   (\<exists>w'. fst (from_config (scripted Map.empty)
        (fresh_remote_execution (files (snd (write_config
           \<lparr>ws_name = ''myws'', ws_subscription_id = ''<subscription_id>'',
            ws_resource_group = ''myrg'', ws_location = ''eastus2''\<rparr> (fresh_configuration Map.empty)))))) = Inr w' \<and>
      ws_subscription_id w' = ''<subscription_id>'' \<and> ws_resource_group w' = ''myrg'' \<and> ws_name w' = ''myws'')"
proof -
  let ?w = "\<lparr>ws_name = ''myws'', ws_subscription_id = ''<subscription_id>'',
             ws_resource_group = ''myrg'', ws_location = ''eastus2''\<rparr>"
  let ?s1 = "snd (write_config ?w (fresh_configuration Map.empty))"
  let ?s2 = "fresh_remote_execution (files ?s1)"
  have ok: "fst (write_config ?w (fresh_configuration Map.empty)) = Inr ()"
    by (simp add: run_defs components_simps fresh_configuration_def)
  then have written: "write_config ?w (fresh_configuration Map.empty) = (Inr (), ?s1)"
    by (simp add: prod_eq_iff)
  have later: "files ?s2 = files ?s1"
    by (simp add: fresh_remote_execution_def)
  have "\<exists>w'. fst (from_config (scripted Map.empty) ?s2) = Inr w'"
    by (simp add: run_defs components_simps fresh_configuration_def fresh_remote_execution_def)
  then obtain w' where w': "fst (from_config (scripted Map.empty) ?s2) = Inr w'" ..
  then have loaded: "from_config (scripted Map.empty) ?s2 = (Inr w', snd (from_config (scripted Map.empty) ?s2))"
    by (simp add: prod_eq_iff)
  from config_round_trip [OF written later loaded]
  have "ws_subscription_id w' = ''<subscription_id>'' \<and> ws_resource_group w' = ''myrg'' \<and> ws_name w' = ''myws''"
    by simp
  with ok w' show ?thesis by blast
qed

lemma for_each_write_config:
  assumes "wss \<noteq> []" and "for_each wss write_config s = (Inr (), s')"
  shows "stat (files s') (components config_file) = Some (JsonFile (descriptor (last wss))) \<and>
         (\<forall>p. p \<noteq> components config_dir \<longrightarrow> p \<noteq> components config_file \<longrightarrow> files s' p = files s p)"
  using assms
proof (induction wss arbitrary: s)
  case Nil
  then show ?case by simp
next
  case (Cons w wss)
  from Cons.prems(2) obtain s1 where first: "write_config w s = (Inr (), s1)"
    and rest: "for_each wss write_config s1 = (Inr (), s')"
    by (auto simp add: bindE_def split: prod.splits sum.splits)
  show ?case
  proof (cases "wss = []")
    case True
    with rest have "s' = s1" by (simp add: returnE_def)
    with True write_config_writes [OF first] show ?thesis by simp
  next
    case False
    from Cons.IH [OF False rest] write_config_writes(2) [OF first] False
    show ?thesis by simp
  qed
qed

text \<open>
  Claim C7. A working directory has one configuration file, and every reconfiguration
  overwrites it wholesale: after any sequence of \<^verbatim>\<open>write_config\<close> calls that succeeded the
  file holds exactly the descriptor of the last call, nothing of the earlier ones, and no
  file outside the configuration directory has changed.
\<close>

theorem reconfiguration_overwrites:
  "wss \<noteq> [] \<Longrightarrow> for_each wss write_config s = (Inr (), s') \<Longrightarrow>
     stat (files s') (components config_file) = Some (JsonFile (descriptor (last wss))) \<and>
     (\<forall>p. p \<noteq> components config_dir \<longrightarrow> p \<noteq> components config_file \<longrightarrow> files s' p = files s p)"
  by (rule for_each_write_config)

theorem reconfiguration_overwrites_witness:
  "fst (for_each
     [\<lparr>ws_name = ''myws'', ws_subscription_id = ''<subscription_id>'', ws_resource_group = ''myrg'', ws_location = ''eastus2''\<rparr>,
      \<lparr>ws_name = ''other'', ws_subscription_id = ''1234'', ws_resource_group = ''rg2'', ws_location = ''westeurope''\<rparr>]
     write_config (fresh_configuration configured)) = Inr () \<and>
   stat (files (snd (for_each
     [\<lparr>ws_name = ''myws'', ws_subscription_id = ''<subscription_id>'', ws_resource_group = ''myrg'', ws_location = ''eastus2''\<rparr>,
      \<lparr>ws_name = ''other'', ws_subscription_id = ''1234'', ws_resource_group = ''rg2'', ws_location = ''westeurope''\<rparr>]
     write_config (fresh_configuration configured)))) (components config_file) =
     Some (JsonFile [(''subscription_id'', ''1234''), (''resource_group'', ''rg2''), (''workspace_name'', ''other'')]) \<and>
   files (snd (for_each
     [\<lparr>ws_name = ''myws'', ws_subscription_id = ''<subscription_id>'', ws_resource_group = ''myrg'', ws_location = ''eastus2''\<rparr>,
      \<lparr>ws_name = ''other'', ws_subscription_id = ''1234'', ws_resource_group = ''rg2'', ws_location = ''westeurope''\<rparr>]
     write_config (fresh_configuration configured))) [''sample_projects''] = Some Dir"
proof -
  let ?wss = "[\<lparr>ws_name = ''myws'', ws_subscription_id = ''<subscription_id>'', ws_resource_group = ''myrg'', ws_location = ''eastus2''\<rparr>,
      \<lparr>ws_name = ''other'', ws_subscription_id = ''1234'', ws_resource_group = ''rg2'', ws_location = ''westeurope''\<rparr>]"
  let ?s = "fresh_configuration configured"
  have ok: "fst (for_each ?wss write_config ?s) = Inr ()"
    by (simp add: run_defs components_simps fresh_configuration_def configured_def)
  then have ran: "for_each ?wss write_config ?s = (Inr (), snd (for_each ?wss write_config ?s))"
    by (simp add: prod_eq_iff)
  have "?wss \<noteq> []" by simp
  from reconfiguration_overwrites [OF this ran]
  have "stat (files (snd (for_each ?wss write_config ?s))) (components config_file) =
      Some (JsonFile [(''subscription_id'', ''1234''), (''resource_group'', ''rg2''), (''workspace_name'', ''other'')])"
    and "files (snd (for_each ?wss write_config ?s)) [''sample_projects''] = files ?s [''sample_projects'']"
    by (simp_all add: descriptor_def config_dir_def config_file_def components_simps)
  with ok show ?thesis
    by (simp add: fresh_configuration_def configured_def)
qed

text \<open>
  Claim C2, as amended. The descriptor persisted to the local configuration file has
  exactly three fields, the subscription identifier, the resource group name and the
  workspace name, each written with the value of its variable whenever the configuration
  step runs to its end.
\<close>

theorem configuration_step_persists_three_fields:
  "configuring_your_local_environment sdk s = (Inr (), s') \<Longrightarrow>
     (\<exists>sub rg n. subscription_id s = Some sub \<and> resource_group s = Some rg \<and> workspace_name s = Some n \<and>
        stat (files s') (components config_file) =
          Some (JsonFile [(''subscription_id'', sub), (''resource_group'', rg), (''workspace_name'', n)]))"
proof -
  assume run: "configuring_your_local_environment sdk s = (Inr (), s')"
  then obtain n sub rg where vars: "workspace_name s = Some n" "subscription_id s = Some sub"
      "resource_group s = Some rg"
    by (auto simp add: configuring_your_local_environment_def bindE_def getvar_def split: option.splits)
  with run obtain w s1 s2 where made: "Workspace_init sdk n sub rg s = (Inr w, s1)"
      and written: "write_config w s2 = (Inr (), s')"
    by (auto simp add: configuring_your_local_environment_def bindE_def getvar_def assign_def
        split: prod.splits sum.splits)
  from made have "descriptor w = [(''subscription_id'', sub), (''resource_group'', rg), (''workspace_name'', n)]"
    by (auto simp add: Workspace_init_def bindE_def returnE_def descriptor_def split: prod.splits sum.splits)
  with write_config_writes(1) [OF written] vars show ?thesis by simp
qed

theorem configuration_step_persists_three_fields_witness:
  "fst (configuring_your_local_environment (scripted Map.empty)
          (snd (workspace_parameters (fresh_configuration Map.empty)))) = Inr () \<and>
   stat (files (snd (configuring_your_local_environment (scripted Map.empty)
          (snd (workspace_parameters (fresh_configuration Map.empty)))))) (components config_file) =
     Some (JsonFile [(''subscription_id'', ''<subscription_id>''), (''resource_group'', ''myrg''),
                     (''workspace_name'', ''myws'')])"
proof -
  let ?s = "snd (workspace_parameters (fresh_configuration Map.empty))"
  have ok: "fst (configuring_your_local_environment (scripted Map.empty) ?s) = Inr ()"
    by (simp add: cell_defs run_defs components_simps fresh_configuration_def)
  then have ran: "configuring_your_local_environment (scripted Map.empty) ?s =
      (Inr (), snd (configuring_your_local_environment (scripted Map.empty) ?s))"
    by (simp add: prod_eq_iff)
  have vars: "subscription_id ?s = Some ''<subscription_id>''" "resource_group ?s = Some ''myrg''"
      "workspace_name ?s = Some ''myws''"
    by (simp_all add: cell_defs run_defs fresh_configuration_def)
  from configuration_step_persists_three_fields [OF ran] vars
  have "stat (files (snd (configuring_your_local_environment (scripted Map.empty) ?s))) (components config_file) =
     Some (JsonFile [(''subscription_id'', ''<subscription_id>''), (''resource_group'', ''myrg''),
                     (''workspace_name'', ''myws'')])"
    by auto
  with ok show ?thesis by simp
qed

text \<open>
  The claim as first stated counts the region among the fields. Run on the values the
  notebook ships with, the configuration step leaves a descriptor of three members, none
  of which is the region \<^verbatim>\<open>eastus2\<close>.
\<close>

theorem descriptor_without_region_counterexample:
  "workspace_region (snd (run_cells [workspace_parameters, configuring_your_local_environment (scripted Map.empty)]
      (fresh_configuration Map.empty))) = Some ''eastus2'' \<and>
   (\<exists>members. stat (files (snd (run_cells [workspace_parameters, configuring_your_local_environment (scripted Map.empty)]
      (fresh_configuration Map.empty)))) (components config_file) = Some (JsonFile members) \<and>
      length members = 3 \<and> ''eastus2'' \<notin> snd ` set members)"
  by (simp add: cell_defs run_defs components_simps fresh_configuration_def)

section \<open>Reading an integer\<close>












section \<open>The metrics table\<close>




















section \<open>The settings after submission\<close>

lemma preserves_returnE: "preserves f (returnE x)"
  by (simp add: preserves_def returnE_def)

lemma preserves_raise: "preserves f (raise e)"
  by (simp add: preserves_def raise_def)

lemma preserves_getvar: "preserves f (getvar g n)"
  by (auto simp add: preserves_def getvar_def split: option.splits)

lemma preserves_getitem: "preserves f (getitem d k)"
  by (simp add: getitem_def preserves_returnE preserves_raise split: option.splits)

lemma preserves_py_int: "preserves f (py_int t)"
  by (simp add: py_int_def preserves_returnE preserves_raise split: option.splits)

lemma preserves_assign: "(\<And>s. f (g s) = f s) \<Longrightarrow> preserves f (assign g)"
  by (simp add: preserves_def assign_def)

lemma preserves_call_service:
  assumes "\<And>s r. f (s\<lparr>service := r\<rparr>) = f s" and "\<And>s t. f (s\<lparr>trace := t\<rparr>) = f s"
  shows "preserves f (call n (on_service g))"
  using assms
  by (auto simp add: preserves_def call_def on_service_def split: prod.splits)

lemma preserves_bindE:
  assumes "preserves f m" and "\<And>x. preserves f (k x)"
  shows "preserves f (bindE m k)"
  using assms unfolding preserves_def bindE_def
  by (auto split: prod.splits sum.splits)

lemma preserves_for_each: "(\<And>x. preserves f (body x)) \<Longrightarrow> preserves f (for_each xs body)"
proof (induction xs)
  case Nil
  show ?case by (simp add: preserves_returnE)
next
  case (Cons x xs)
  show ?case unfolding for_each.simps by (rule preserves_bindE) (rule Cons)+
qed

lemma preserves_run_cells: "(\<And>c. c \<in> set cs \<Longrightarrow> preserves f c) \<Longrightarrow> preserves f (run_cells cs)"
proof (induction cs)
  case Nil
  show ?case by (simp add: preserves_returnE)
next
  case (Cons c cs)
  have "preserves f c" by (rule Cons.prems) simp
  moreover have "preserves f (run_cells cs)" by (rule Cons.IH) (simp add: Cons.prems)
  ultimately show ?case unfolding run_cells.simps by (intro preserves_bindE)
qed

lemma preserves_case_prod: "(\<And>a b. preserves f (g a b)) \<Longrightarrow> preserves f (case_prod g x)"
  by (cases x) simp

lemmas preserves_steps = preserves_bindE preserves_returnE preserves_raise preserves_getvar
  preserves_getitem preserves_py_int preserves_assign preserves_call_service preserves_for_each
  preserves_case_prod

lemma settings_kept_record_metrics:
  "preserves automl_settings (record_metrics sdk r)" "preserves automl_config (record_metrics sdk r)"
  unfolding record_metrics_def by (intro preserves_steps; simp)+


lemma settings_kept_after_submission:
  assumes "c \<in> set (after_submission sdk)"
  shows "preserves automl_settings c \<and> preserves automl_config c"
proof -
  have "preserves automl_settings (widget_for_monitoring_runs sdk)"
    "preserves automl_config (widget_for_monitoring_runs sdk)"
    "preserves automl_settings (retrieve_all_child_runs sdk)"
    "preserves automl_config (retrieve_all_child_runs sdk)"
    "preserves automl_settings (canceling_runs sdk)"
    "preserves automl_config (canceling_runs sdk)"
    "preserves automl_settings (retrieve_the_best_model sdk)"
    "preserves automl_config (retrieve_the_best_model sdk)"
    "preserves automl_settings (model_from_a_specific_iteration sdk)"
    "preserves automl_config (model_from_a_specific_iteration sdk)"
    "preserves automl_settings (register_fitted_model sdk)"
    "preserves automl_config (register_fitted_model sdk)"
    unfolding widget_for_monitoring_runs_def retrieve_all_child_runs_def canceling_runs_def
      retrieve_the_best_model_def model_from_a_specific_iteration_def register_fitted_model_def
    by (intro preserves_steps settings_kept_record_metrics; simp)+
  with assms show ?thesis by (auto simp add: after_submission_def)
qed

lemma settings_kept_training:
  "preserves automl_settings (training_the_model sdk)" "preserves automl_config (training_the_model sdk)"
  unfolding training_the_model_def by (intro preserves_steps; simp)+

lemma training_submits_once:
  assumes "training_the_model sdk s = (res, s')"
  shows "called ''Experiment.submit'' s s' \<le> 1 \<and> (res = Inr () \<longrightarrow> called ''Experiment.submit'' s s' = 1)"
  using assms unfolding training_the_model_def
  by (auto simp add: bindE_def getvar_def call_def on_service_def assign_def called_def
      split: option.splits prod.splits sum.splits)

lemma training_passes_config:
  assumes "training_the_model sdk s = (res, s')" and "experiment s = Some e" and "automl_config s = Some cfg"
  shows "service s' = snd (Experiment_submit sdk e cfg (service s))"
  using assms unfolding training_the_model_def
  by (auto simp add: bindE_def getvar_def call_def on_service_def assign_def
      split: option.splits prod.splits sum.splits)

lemma instantiate_automl_Inr:
  assumes "instantiate_automl s = (Inr (), s')"
  shows "automl_settings s' = Some automl_settings_dict \<and>
         (\<exists>cfg. automl_config s' = Some cfg \<and> settings cfg = automl_settings_dict)"
  using assms unfolding instantiate_automl_def AutoMLConfig_init_def
  by (auto simp add: bindE_def getvar_def assign_def returnE_def raise_def
      split: option.splits prod.splits sum.splits list.splits)

lemma called_none:
  assumes "emits N m" and "name \<notin> N" and "m s = (res, s')"
  shows "called name s s' = 0"
proof -
  from assms(1,3) obtain cs where "trace s' = trace s @ cs" "fst ` set cs \<subseteq> N"
    unfolding emits_def by blast
  with assms(2) show ?thesis by (auto simp add: called_def filter_empty_conv)
qed

lemma called_add:
  assumes "emits N m" and "m s = (r1, s1)" and "emits N' m'" and "m' s1 = (r2, s2)"
  shows "called name s s2 = called name s s1 + called name s1 s2"
proof -
  from assms(1,2) obtain a where "trace s1 = trace s @ a" unfolding emits_def by blast
  moreover from assms(3,4) obtain b where "trace s2 = trace s1 @ b" unfolding emits_def by blast
  ultimately show ?thesis by (simp add: called_def)
qed

lemma run_cells_append: "run_cells (xs @ ys) = bindE (run_cells xs) (\<lambda>_. run_cells ys)"
proof (induction xs)
  case Nil
  show ?case by (rule ext) (simp add: bindE_def returnE_def)
next
  case (Cons x xs)
  show ?case
    by (rule ext) (simp add: Cons bindE_def split: prod.splits sum.splits)
qed

lemma run_cells_snoc_Inr:
  assumes "run_cells (xs @ [c]) s = (Inr (), s')"
  shows "\<exists>s0. c s0 = (Inr (), s')"
  using assms unfolding run_cells_append
  by (auto simp add: bindE_def returnE_def split: prod.splits sum.splits)


lemma notebook_submits_once:
  assumes run: "run_cells (remote_execution_notebook sdk) s = (res, s')"
  shows "called ''Experiment.submit'' s s' \<le> 1 \<and>
     (res = Inr () \<longrightarrow> called ''Experiment.submit'' s s' = 1 \<and>
        automl_settings s' = Some automl_settings_dict \<and>
        (\<exists>cfg. automl_config s' = Some cfg \<and> settings cfg = automl_settings_dict))"
proof -
  let ?B = "run_cells (before_submission sdk)"
  let ?T = "training_the_model sdk"
  let ?A = "run_cells (after_submission sdk)"
  let ?BT = "bindE ?B (\<lambda>_. ?T)"
  have eB: "emits (- {''Experiment.submit''}) ?B"
    by (intro emits_run_cells emits_before_submission)
  have eA: "emits (- {''Experiment.submit''}) ?A"
    by (intro emits_run_cells emits_after_submission)
  have eT: "emits UNIV ?T" by (rule emits_training_the_model)
  have eBT: "emits UNIV ?BT"
    by (intro emits_bindE emits_mono [OF eB] eT) simp
  have whole: "run_cells (remote_execution_notebook sdk) = bindE ?BT (\<lambda>_. ?A)"
    unfolding remote_execution_notebook_def run_cells_append
    by (rule ext) (auto simp add: bindE_def returnE_def split: prod.splits sum.splits)
  obtain rB sB where B: "?B s = (rB, sB)" by (cases "?B s")
  have zB: "called ''Experiment.submit'' s sB = 0"
    by (rule called_none [OF eB _ B]) simp
  show ?thesis
  proof (cases rB)
    case (Inl e)
    with run B have "s' = sB" "res = Inl e" unfolding whole by (simp_all add: bindE_def)
    with zB show ?thesis by simp
  next
    case (Inr u)
    obtain rT sT where T: "?T sB = (rT, sT)" by (cases "?T sB")
    with B Inr have BT: "?BT s = (rT, sT)" by (simp add: bindE_def)
    have sum1: "called ''Experiment.submit'' s sT = called ''Experiment.submit'' sB sT"
      using called_add [OF eB B eT T, of "''Experiment.submit''"] zB by simp
    show ?thesis
    proof (cases rT)
      case (Inl e)
      with run BT have "s' = sT" "res = Inl e" unfolding whole by (simp_all add: bindE_def)
      with sum1 training_submits_once [OF T] show ?thesis by simp
    next
      case Inr2: (Inr v)
      with run BT have A: "?A sT = (res, s')" unfolding whole by (simp add: bindE_def)
      have zA: "called ''Experiment.submit'' sT s' = 0"
        by (rule called_none [OF eA _ A]) simp
      have count: "called ''Experiment.submit'' s s' = 1"
        using called_add [OF eBT BT eA A, of "''Experiment.submit''"] zA sum1
          training_submits_once [OF T] Inr2 by simp
      have "run_cells ([create_experiment sdk, diagnostics sdk, attach_a_remote_linux_dsvm sdk,
           create_project_folder, create_get_data_file] @ [instantiate_automl]) s = (Inr (), sB)"
        using B Inr by (simp add: before_submission_def)
      from run_cells_snoc_Inr [OF this] obtain s0 where "instantiate_automl s0 = (Inr (), sB)" ..
      from instantiate_automl_Inr [OF this] obtain cfg where
        sB: "automl_settings sB = Some automl_settings_dict" "automl_config sB = Some cfg"
          "settings cfg = automl_settings_dict"
        by blast
      have "automl_settings sT = automl_settings sB" "automl_config sT = automl_config sB"
        using settings_kept_training [of sdk] T unfolding preserves_def by blast+
      moreover have "preserves automl_settings ?A" "preserves automl_config ?A"
        by (intro preserves_run_cells; simp add: settings_kept_after_submission)+
      with A have "automl_settings s' = automl_settings sT" "automl_config s' = automl_config sT"
        unfolding preserves_def by blast+
      ultimately show ?thesis using count sB by simp
    qed
  qed
qed

text \<open>
  Claim C8. The settings are passed once, at submission, and no cell changes them
  afterwards. A run of the notebook submits at most once, and exactly once when it runs to
  its end, where the variable \<^verbatim>\<open>automl_settings\<close> still holds the dictionary and
  \<^verbatim>\<open>automl_config\<close> a configuration with those settings; the submitting cell hands this
  configuration to the service in one call and leaves both variables as they are; and
  whatever cells after the submission are run (monitoring, child runs and metrics,
  cancellation, model retrieval, registration), in whatever order and whether they fail or
  not, both variables keep their values.
\<close>

theorem settings_passed_once_and_kept:
  "(run_cells (remote_execution_notebook sdk) s = (res, s') \<longrightarrow>
      called ''Experiment.submit'' s s' \<le> 1 \<and>
      (res = Inr () \<longrightarrow> called ''Experiment.submit'' s s' = 1 \<and>
         automl_settings s' = Some automl_settings_dict \<and>
         (\<exists>cfg. automl_config s' = Some cfg \<and> settings cfg = automl_settings_dict))) \<and>
   (training_the_model sdk t = (res1, t1) \<longrightarrow> experiment t = Some e \<longrightarrow> automl_config t = Some cfg \<longrightarrow>
      service t1 = snd (Experiment_submit sdk e cfg (service t)) \<and>
      automl_settings t1 = automl_settings t \<and> automl_config t1 = automl_config t) \<and>
   (set cells \<subseteq> set (after_submission sdk) \<longrightarrow> run_cells cells u = (res2, u') \<longrightarrow>
      automl_settings u' = automl_settings u \<and> automl_config u' = automl_config u)"
proof (intro conjI impI)
  assume "run_cells (remote_execution_notebook sdk) s = (res, s')"
  from notebook_submits_once [OF this]
  show "called ''Experiment.submit'' s s' \<le> 1"
    and "res = Inr () \<Longrightarrow> called ''Experiment.submit'' s s' = 1"
    and "res = Inr () \<Longrightarrow> automl_settings s' = Some automl_settings_dict"
    and "res = Inr () \<Longrightarrow> \<exists>cfg. automl_config s' = Some cfg \<and> settings cfg = automl_settings_dict"
    by simp_all
next
  assume T: "training_the_model sdk t = (res1, t1)" and "experiment t = Some e" "automl_config t = Some cfg"
  then show "service t1 = snd (Experiment_submit sdk e cfg (service t))"
    by (rule training_passes_config)
  from T settings_kept_training [of sdk]
  show "automl_settings t1 = automl_settings t" "automl_config t1 = automl_config t"
    unfolding preserves_def by blast+
next
  assume sub: "set cells \<subseteq> set (after_submission sdk)" and run: "run_cells cells u = (res2, u')"
  have "preserves automl_settings (run_cells cells)" "preserves automl_config (run_cells cells)"
    using sub by (intro preserves_run_cells; auto simp add: settings_kept_after_submission)+
  with run show "automl_settings u' = automl_settings u" "automl_config u' = automl_config u"
    unfolding preserves_def by blast+
qed

theorem settings_passed_once_and_kept_witness:
  "fst (run_cells (remote_execution_notebook (scripted Map.empty)) (fresh_remote_execution configured)) = Inr () \<and>
   called ''Experiment.submit'' (fresh_remote_execution configured)
     (snd (run_cells (remote_execution_notebook (scripted Map.empty)) (fresh_remote_execution configured))) = 1 \<and>
   automl_settings (snd (run_cells (remote_execution_notebook (scripted Map.empty))
     (fresh_remote_execution configured))) = Some automl_settings_dict \<and>
   service (snd (training_the_model (scripted Map.empty) prepared)) = 5 \<and>
   automl_config (snd (training_the_model (scripted Map.empty) prepared)) = automl_config prepared \<and>
   automl_settings (snd (run_cells (after_submission (scripted Map.empty)) submitted)) = automl_settings submitted \<and>
   automl_config (snd (run_cells (after_submission (scripted Map.empty)) submitted)) = automl_config submitted"
proof -
  let ?sdk = "scripted Map.empty"
  let ?all = "run_cells (remote_execution_notebook ?sdk) (fresh_remote_execution configured)"
  note claim = settings_passed_once_and_kept [of ?sdk]
  have ok: "fst ?all = Inr ()"
    by (simp add: remote_execution_notebook_def before_submission_def after_submission_def
        cell_defs run_defs components_simps fresh_remote_execution_def configured_def int_of_str_digit)
  then have "?all = (Inr (), snd ?all)" by (simp add: prod_eq_iff)
  from claim [THEN conjunct1, rule_format, OF this]
  have once: "called ''Experiment.submit'' (fresh_remote_execution configured) (snd ?all) = 1"
    "automl_settings (snd ?all) = Some automl_settings_dict"
    by simp_all
  let ?e = "Experiment \<lparr>ws_name = ''myws'', ws_subscription_id = ''<subscription_id>'',
     ws_resource_group = ''myrg'', ws_location = ''eastus2''\<rparr> ''automl-remote-dsvm-blobstore''"
  let ?c = "\<lparr>task = ''classification'',
     path = ''./sample_projects/automl-remote-dsvm-blobstore'',
     compute_target = RemoteCompute ''mydsvm1'',
     data_script = ''./sample_projects/automl-remote-dsvm-blobstore/get_data.py'',
     settings = automl_settings_dict\<rparr>"
  have e: "experiment prepared = Some ?e" and c: "automl_config prepared = Some ?c"
    and sv: "service prepared = 4"
    using prepared_eval by simp_all
  have answered: "snd (Experiment_submit ?sdk ?e ?c 4) = 5"
    by (simp add: scripted_def answer_def)
  from claim [THEN conjunct2, THEN conjunct1, rule_format, OF surjective_pairing e c]
  have passed: "service (snd (training_the_model ?sdk prepared)) = 5"
    "automl_config (snd (training_the_model ?sdk prepared)) = automl_config prepared"
    by (simp_all only: sv answered)
  from claim [where u = submitted, THEN conjunct2, THEN conjunct2, rule_format,
      OF subset_refl surjective_pairing]
  have kept: "automl_settings (snd (run_cells (after_submission ?sdk) submitted)) = automl_settings submitted"
    "automl_config (snd (run_cells (after_submission ?sdk) submitted)) = automl_config submitted"
    by simp_all
  from ok once passed kept show ?thesis by simp
qed

section \<open>The data the script returns\<close>

lemma searchsorted_index:
  "sorted cs \<Longrightarrow> distinct cs \<Longrightarrow> v \<in> set cs \<Longrightarrow>
     searchsorted cs v < length cs \<and> cs ! searchsorted cs v = v"
proof (induction cs)
  case Nil
  then show ?case by simp
next
  case (Cons c cs)
  show ?case
  proof (cases "c < v")
    case True
    with Cons.prems have "v \<in> set cs" by auto
    with Cons True show ?thesis by (simp add: searchsorted_def)
  next
    case False
    with Cons.prems have "c = v" by (auto simp add: not_less)
    moreover from Cons.prems \<open>c = v\<close> have "filter (\<lambda>x. x < v) cs = []"
      by (auto simp add: filter_empty_conv not_less)
    ultimately show ?thesis by (simp add: searchsorted_def)
  qed
qed

lemma transform_fit:
  "transform (fit labels) labels = Inr (map (searchsorted (sort (remdups labels))) labels)"
  by (simp add: transform_def fit_def list_all_iff)

text \<open>
  Claim C4. For every fetched data set with a \<^verbatim>\<open>Label\<close> column, on which the split
  returns, \<^verbatim>\<open>get_data\<close> returns the dictionary whose \<^verbatim>\<open>"X"\<close> is the whole frame with
  the \<^verbatim>\<open>Label\<close> column dropped and whose \<^verbatim>\<open>"y"\<close> is the encoding of the whole
  \<^verbatim>\<open>Label\<close> column: one code per row, each the place of the row's label among the sorted
  distinct labels. The four parts of the split occur nowhere in the result.
\<close>

theorem get_data_returns_whole_dataset:
  assumes "map_of df ''Label'' = Some labels"
    and "train_test_split (filter (\<lambda>(c, vs). c \<noteq> ''Label'') df)
           (map (searchsorted (sort (remdups labels))) labels) 0.1 42 = Inr parts"
  shows "\<exists>ys. get_data (Inr df) train_test_split =
             Inr [(''X'', DataFrame (filter (\<lambda>(c, vs). c \<noteq> ''Label'') df)), (''y'', ndarray ys)] \<and>
           length ys = length labels \<and>
           (\<forall>i < length labels. ys ! i < length (sort (remdups labels)) \<and>
                                 sort (remdups labels) ! (ys ! i) = labels ! i)"
proof -
  let ?ys = "map (searchsorted (sort (remdups labels))) labels"
  from assms(1) have "''Label'' \<in> set (map fst df)"
    by (metis map_of_eq_None_iff option.distinct(1) set_map)
  then have dropped: "drop_columns df [''Label''] = Inr (filter (\<lambda>(c, vs). c \<noteq> ''Label'') df)"
    by (simp add: drop_columns_def)
  obtain a b c d where parts: "parts = (a, b, c, d)" by (cases parts)
  from assms dropped parts have "get_data (Inr df) train_test_split =
      Inr [(''X'', DataFrame (filter (\<lambda>(c, vs). c \<noteq> ''Label'') df)), (''y'', ndarray ?ys)]"
    by (simp add: get_data_def column_values_def transform_fit)
  moreover have "\<forall>i < length labels. ?ys ! i < length (sort (remdups labels)) \<and>
      sort (remdups labels) ! (?ys ! i) = labels ! i"
    using searchsorted_index [of "sort (remdups labels)"] by simp
  ultimately show ?thesis by simp
qed

lemma label_order: "sort (remdups [''fire'', ''art'', ''fire'', ''care'']) = [''art'', ''care'', ''fire'']"
  by code_simp


lemma label_codes:
  "searchsorted [''art'', ''care'', ''fire''] ''art'' = 0"
  "searchsorted [''art'', ''care'', ''fire''] ''care'' = 1"
  "searchsorted [''art'', ''care'', ''fire''] ''fire'' = 2"
  unfolding searchsorted_def by code_simp+

theorem get_data_returns_whole_dataset_witness:
  "get_data (Inr [(''Title'', [''Burn night'', ''Temple walk'', ''Fire spinning'', ''Tea house'']),
                  (''Label'', [''fire'', ''art'', ''fire'', ''care''])])
     (\<lambda>X ys test_size random_state. Inr (take 3 X, drop 3 X, take 3 ys, drop 3 ys)) =
     Inr [(''X'', DataFrame [(''Title'', [''Burn night'', ''Temple walk'', ''Fire spinning'', ''Tea house''])]),
          (''y'', ndarray [2, 0, 2, 1])] \<and>
   (\<exists>ys. get_data (Inr [(''Title'', [''Burn night'', ''Temple walk'', ''Fire spinning'', ''Tea house'']),
                  (''Label'', [''fire'', ''art'', ''fire'', ''care''])])
     (\<lambda>X ys test_size random_state. Inr (take 3 X, drop 3 X, take 3 ys, drop 3 ys)) =
     Inr [(''X'', DataFrame [(''Title'', [''Burn night'', ''Temple walk'', ''Fire spinning'', ''Tea house''])]),
          (''y'', ndarray ys)] \<and> length ys = 4)"
proof -
  let ?df = "[(''Title'', [''Burn night'', ''Temple walk'', ''Fire spinning'', ''Tea house'']),
              (''Label'', [''fire'', ''art'', ''fire'', ''care''])]"
  let ?split = "\<lambda>(X :: string frame) (ys :: nat list) (test_size :: real) (random_state :: nat).
      Inr (take 3 X, drop 3 X, take 3 ys, drop 3 ys) :: error + string frame \<times> string frame \<times> nat list \<times> nat list"
  let ?labels = "[''fire'', ''art'', ''fire'', ''care'']"
  have "\<exists>ys. get_data (Inr ?df) ?split =
             Inr [(''X'', DataFrame (filter (\<lambda>(c, vs). c \<noteq> ''Label'') ?df)), (''y'', ndarray ys)] \<and>
           length ys = length ?labels \<and>
           (\<forall>i < length ?labels. ys ! i < length (sort (remdups ?labels)) \<and>
                                 sort (remdups ?labels) ! (ys ! i) = ?labels ! i)"
    by (rule get_data_returns_whole_dataset [where train_test_split = ?split and df = ?df
          and labels = ?labels], simp, rule refl)
  then obtain ys where
    ys: "get_data (Inr ?df) ?split =
      Inr [(''X'', DataFrame (filter (\<lambda>(c, vs). c \<noteq> ''Label'') ?df)), (''y'', ndarray ys)]"
      "length ys = length ?labels"
    by blast
  have computed: "get_data (Inr ?df) ?split =
     Inr [(''X'', DataFrame [(''Title'', [''Burn night'', ''Temple walk'', ''Fire spinning'', ''Tea house''])]),
          (''y'', ndarray [2, 0, 2, 1])]"
    by (simp add: get_data_def column_values_def transform_fit drop_columns_def label_order label_codes)
  from ys computed show ?thesis by simp
qed

section \<open>The settings dictionary\<close>





section \<open>Provisioning a workspace\<close>

text \<open>
  Claim C6. The provisioning call takes four strings and either returns the reference to
  the workspace of that name, subscription, resource group and region, or fails. It fails,
  leaving the service as it was, when the workspace already exists and when the caller may
  not create workspaces in the resource group; when it returns, the workspace exists.
\<close>

theorem workspace_provisioning:
  "Workspace_create sdk = provision \<Longrightarrow> Workspace_create_call sdk n sub rg loc s = (res, s') \<Longrightarrow>
     (res = Inr \<lparr>ws_name = n, ws_subscription_id = sub, ws_resource_group = rg, ws_location = loc\<rparr> \<or>
      (\<exists>e. res = Inl e)) \<and>
     (workspaces (service s) (sub, rg, n) \<noteq> None \<longrightarrow> res = Inl ResourceExists \<and> service s' = service s) \<and>
     (workspaces (service s) (sub, rg, n) = None \<longrightarrow> (sub, rg) \<notin> set (may_create_in (service s)) \<longrightarrow>
        res = Inl InsufficientPermission \<and> service s' = service s) \<and>
     ((\<exists>w. res = Inr w) \<longrightarrow> workspaces (service s') (sub, rg, n) = Some loc)"
  by (auto simp add: Workspace_create_call_def bindE_def call_def on_service_def returnE_def
      provision_def split: prod.splits sum.splits if_splits)

theorem workspace_provisioning_witness:
  "fst (Workspace_create_call hosted ''myws'' ''<subscription_id>'' ''myrg'' ''eastus2'' one_workspace) =
     Inl ResourceExists \<and>
   fst (Workspace_create_call hosted ''second'' ''<subscription_id>'' ''other_rg'' ''eastus2'' one_workspace) =
     Inl InsufficientPermission \<and>
   fst (Workspace_create_call hosted ''second'' ''<subscription_id>'' ''myrg'' ''westeurope'' one_workspace) =
     Inr \<lparr>ws_name = ''second'', ws_subscription_id = ''<subscription_id>'', ws_resource_group = ''myrg'',
          ws_location = ''westeurope''\<rparr> \<and>
   workspaces (service (snd (Workspace_create_call hosted ''second'' ''<subscription_id>'' ''myrg'' ''westeurope''
     one_workspace))) (''<subscription_id>'', ''myrg'', ''second'') = Some ''westeurope''"
proof -
  have sdk: "Workspace_create hosted = provision" by (simp add: hosted_def)
  note claim = workspace_provisioning [OF sdk surjective_pairing, where s = one_workspace]
  have there: "workspaces (service one_workspace) (''<subscription_id>'', ''myrg'', ''myws'') \<noteq> None"
    and free: "workspaces (service one_workspace) (''<subscription_id>'', ''other_rg'', ''second'') = None"
      "workspaces (service one_workspace) (''<subscription_id>'', ''myrg'', ''second'') = None"
    and denied: "(''<subscription_id>'', ''other_rg'') \<notin> set (may_create_in (service one_workspace))"
    by (simp_all add: one_workspace_def)
  from claim [of "''myws''" "''<subscription_id>''" "''myrg''" "''eastus2''"] there
  have a: "fst (Workspace_create_call hosted ''myws'' ''<subscription_id>'' ''myrg'' ''eastus2'' one_workspace) =
     Inl ResourceExists" by simp
  from claim [of "''second''" "''<subscription_id>''" "''other_rg''" "''eastus2''"] free denied
  have b: "fst (Workspace_create_call hosted ''second'' ''<subscription_id>'' ''other_rg'' ''eastus2'' one_workspace) =
     Inl InsufficientPermission" by simp
  have c: "fst (Workspace_create_call hosted ''second'' ''<subscription_id>'' ''myrg'' ''westeurope'' one_workspace) =
     Inr \<lparr>ws_name = ''second'', ws_subscription_id = ''<subscription_id>'', ws_resource_group = ''myrg'',
          ws_location = ''westeurope''\<rparr>"
    by (simp add: hosted_def one_workspace_def provision_def Workspace_create_call_def bindE_def call_def
        on_service_def returnE_def)
  from claim [of "''second''" "''<subscription_id>''" "''myrg''" "''westeurope''"] c
  have d: "workspaces (service (snd (Workspace_create_call hosted ''second'' ''<subscription_id>'' ''myrg''
     ''westeurope'' one_workspace))) (''<subscription_id>'', ''myrg'', ''second'') = Some ''westeurope''"
    by simp
  from a b c d show ?thesis by simp
qed

end
